theory Spec2Isabelle
  imports Main
begin

section \<open>GraphClient (src/graph-client.ts): a shallow embedding\<close>

text \<open>
  The module is one class, \<open>GraphClient\<close>, with two mutable fields (\<open>accessToken\<close>,
  \<open>refreshToken\<close>) and three collaborators that live outside the file: the credential
  source (\<open>authManager.getToken\<close>), the transport (\<open>fetch\<close>) and the token refresher
  (\<open>refreshAccessToken\<close> of lib/microsoft-auth). The collaborators, the process environment
  and the built-in \<open>JSON.parse\<close> are parameters of the model; everything the file itself
  computes is a definition below.

  Conventions: \<open>undefined\<close> and \<open>null\<close> of an optional string are \<open>None\<close>; \<open>undefined\<close> of
  a value of type \<open>unknown\<close> is \<open>None\<close> of \<open>json option\<close>; a thrown \<open>Error\<close> is \<open>Inl (Error message)\<close>.
  Strings are byte lists (UTF-8). The calls to \<open>logger\<close> write a log and nothing else, and are
  left out.
\<close>

subsection \<open>Strings\<close>

text \<open>\<open>String.prototype.startsWith\<close> and \<open>String.prototype.includes\<close>.\<close>

definition startsWith :: "string \<Rightarrow> string \<Rightarrow> bool" where
  "startsWith s p = (take (length p) s = p)"

fun str_includes :: "string \<Rightarrow> string \<Rightarrow> bool" where
  "str_includes [] p = (p = [])"
| "str_includes (c # cs) p = (startsWith (c # cs) p \<or> str_includes cs p)"

text \<open>\<open>Array.prototype.join\<close> on strings.\<close>

fun join :: "string \<Rightarrow> string list \<Rightarrow> string" where
  "join sep [] = []"
| "join sep [x] = x"
| "join sep (x # y # ys) = x @ sep @ join sep (y # ys)"

text \<open>The decimal rendering of a natural number, as a template literal renders a status code
  or \<open>Object.keys\<close> renders an array index.\<close>

definition digit_char :: "nat \<Rightarrow> char" where
  "digit_char d = char_of (48 + d)"

function string_of_nat :: "nat \<Rightarrow> string" where
  "string_of_nat n =
     (if n < 10 then [digit_char n] else string_of_nat (n div 10) @ [digit_char (n mod 10)])"
  by pat_completeness auto
termination
  by (relation "measure (\<lambda>n. n)") auto

declare string_of_nat.simps [simp del]

text \<open>ASCII lower-casing, used by the case-insensitive lookup of \<open>Headers.get\<close>.\<close>

definition lower_char :: "char \<Rightarrow> char" where
  "lower_char c =
     (let n = (of_char c :: nat) in if 65 \<le> n \<and> n \<le> 90 then char_of (n + 32) else c)"

definition toLowerCase :: "string \<Rightarrow> string" where
  "toLowerCase s = map lower_char s"

subsection \<open>JavaScript values\<close>

text \<open>
  The values \<open>JSON.parse\<close> produces. A number is kept as its canonical rendering (what
  \<open>Number.prototype.toString\<close> prints): the module never computes with numbers, it only tests
  their truthiness and prints them. An object is the list of its own properties in the order
  \<open>Object.keys\<close> enumerates them.
\<close>

datatype json =
    JNull
  | JBool bool
  | JNum string
  | JStr string
  | JArr "json list"
  | JObj "(string \<times> json) list"

text \<open>\<open>typeof\<close>, on a value that may be \<open>undefined\<close>.\<close>

fun typeof :: "json option \<Rightarrow> string" where
  "typeof None = ''undefined''"
| "typeof (Some JNull) = ''object''"
| "typeof (Some (JBool b)) = ''boolean''"
| "typeof (Some (JNum n)) = ''number''"
| "typeof (Some (JStr s)) = ''string''"
| "typeof (Some (JArr xs)) = ''object''"
| "typeof (Some (JObj kvs)) = ''object''"

text \<open>Truthiness (\<open>ToBoolean\<close>): of a value, and of an optional string.\<close>

fun truthy :: "json option \<Rightarrow> bool" where
  "truthy None = False"
| "truthy (Some JNull) = False"
| "truthy (Some (JBool b)) = b"
| "truthy (Some (JNum n)) = (n \<noteq> ''0'' \<and> n \<noteq> ''NaN'')"
| "truthy (Some (JStr s)) = (s \<noteq> [])"
| "truthy (Some (JArr xs)) = True"
| "truthy (Some (JObj kvs)) = True"

fun truthy_str :: "string option \<Rightarrow> bool" where
  "truthy_str None = False"
| "truthy_str (Some s) = (s \<noteq> [])"

text \<open>\<open>a || b\<close> on optional strings: the left operand when it is truthy, else the right one.\<close>

definition or_str :: "string option \<Rightarrow> string option \<Rightarrow> string option" where
  "or_str a b = (if truthy_str a then a else b)"

text \<open>\<open>Array.isArray\<close>.\<close>

fun isArray :: "json option \<Rightarrow> bool" where
  "isArray (Some (JArr xs)) = True"
| "isArray v = False"

text \<open>
  Property read \<open>obj[key]\<close>, property write \<open>obj[key] = v\<close> (an existing key keeps its place,
  a new key goes last) and \<open>key in obj\<close>. Reads of a missing property return \<open>undefined\<close>.
\<close>

fun js_get :: "json \<Rightarrow> string \<Rightarrow> json option" where
  "js_get (JObj kvs) key = map_of kvs key"
| "js_get v key = None"

fun obj_set :: "(string \<times> 'v) list \<Rightarrow> string \<Rightarrow> 'v \<Rightarrow> (string \<times> 'v) list" where
  "obj_set [] key v = [(key, v)]"
| "obj_set ((k, w) # kvs) key v =
     (if k = key then (k, v) # kvs else (k, w) # obj_set kvs key v)"

fun js_in :: "string \<Rightarrow> json \<Rightarrow> bool" where
  "js_in key (JObj kvs) = (key \<in> set (map fst kvs))"
| "js_in key (JArr xs) = (key = ''length'' \<or> key \<in> set (map string_of_nat [0..<length xs]))"
| "js_in key v = False"

subsection \<open>\<open>JSON.stringify\<close>\<close>

text \<open>
  \<open>QuoteJSONString\<close>: the two-character escapes, \<open>\u00XX\<close> for the other control characters,
  every other byte as it is.
\<close>

definition hex_char :: "nat \<Rightarrow> char" where
  "hex_char d = (if d < 10 then char_of (48 + d) else char_of (87 + d))"

definition QuoteJSONChar :: "char \<Rightarrow> string" where
  "QuoteJSONChar c =
     (let n = (of_char c :: nat) in
      if n = 8 then [CHR 0x5C, CHR ''b'']
      else if n = 9 then [CHR 0x5C, CHR ''t'']
      else if n = 10 then [CHR 0x5C, CHR ''n'']
      else if n = 12 then [CHR 0x5C, CHR ''f'']
      else if n = 13 then [CHR 0x5C, CHR ''r'']
      else if n = 34 then [CHR 0x5C, CHR 0x22]
      else if n = 92 then [CHR 0x5C, CHR 0x5C]
      else if n < 32 then [CHR 0x5C, CHR ''u'', CHR ''0'', CHR ''0'', hex_char (n div 16), hex_char (n mod 16)]
      else [c])"

definition QuoteJSONString :: "string \<Rightarrow> string" where
  "QuoteJSONString s = [CHR 0x22] @ concat (map QuoteJSONChar s) @ [CHR 0x22]"

text \<open>
  \<open>SerializeJSONProperty\<close>, \<open>SerializeJSONObject\<close> and \<open>SerializeJSONArray\<close> of the language
  standard, for a gap (the indentation unit, empty for the compact form) and the current
  indentation.
\<close>

fun SerializeJSONProperty :: "string \<Rightarrow> string \<Rightarrow> json \<Rightarrow> string"
  and SerializeJSONMembers :: "string \<Rightarrow> string \<Rightarrow> (string \<times> json) list \<Rightarrow> string list"
  and SerializeJSONElements :: "string \<Rightarrow> string \<Rightarrow> json list \<Rightarrow> string list"
where
  "SerializeJSONProperty gap indent JNull = ''null''"
| "SerializeJSONProperty gap indent (JBool b) = (if b then ''true'' else ''false'')"
| "SerializeJSONProperty gap indent (JNum n) = n"
| "SerializeJSONProperty gap indent (JStr s) = QuoteJSONString s"
| "SerializeJSONProperty gap indent (JArr xs) =
     (let stepback = indent; indent' = indent @ gap;
          partial = SerializeJSONElements gap indent' xs
      in if partial = [] then ''[]''
         else if gap = [] then ''['' @ join '','' partial @ '']''
         else ''['' @ [CHR 0x0A] @ indent' @ join ('','' @ [CHR 0x0A] @ indent') partial
              @ [CHR 0x0A] @ stepback @ '']'')"
| "SerializeJSONProperty gap indent (JObj kvs) =
     (let stepback = indent; indent' = indent @ gap;
          partial = SerializeJSONMembers gap indent' kvs
      in if partial = [] then ''{}''
         else if gap = [] then ''{'' @ join '','' partial @ ''}''
         else ''{'' @ [CHR 0x0A] @ indent' @ join ('','' @ [CHR 0x0A] @ indent') partial
              @ [CHR 0x0A] @ stepback @ ''}'')"
| "SerializeJSONMembers gap indent [] = []"
| "SerializeJSONMembers gap indent ((k, v) # kvs) =
     (QuoteJSONString k @ '':'' @ (if gap = [] then [] else '' '')
        @ SerializeJSONProperty gap indent v)
     # SerializeJSONMembers gap indent kvs"
| "SerializeJSONElements gap indent [] = []"
| "SerializeJSONElements gap indent (x # xs) =
     SerializeJSONProperty gap indent x # SerializeJSONElements gap indent xs"

text \<open>
  \<open>JSON.stringify(value, null, space)\<close>: \<open>undefined\<close> for \<open>undefined\<close>, a string otherwise. The
  gap is \<open>space\<close> blanks, at most ten; \<open>JSON.stringify(value)\<close> is \<open>space = 0\<close>.
\<close>

definition JSON_stringify :: "nat \<Rightarrow> json option \<Rightarrow> string option" where
  "JSON_stringify space v =
     (case v of
        None \<Rightarrow> None
      | Some x \<Rightarrow> Some (SerializeJSONProperty (replicate (min space 10) CHR '' '') [] x))"

subsection \<open>The response envelope\<close>

text \<open>
  \<open>ContentItem\<close> and \<open>McpResponse\<close>. The interface declares \<open>text: string\<close>; the field holds
  whatever \<open>JSON.stringify\<close> returned, which is \<open>undefined\<close> for \<open>undefined\<close>, so the model
  keeps the option. \<open>meta\<close> is the field \<open>_meta\<close>; an absent optional field is \<open>None\<close>.
\<close>

record ContentItem =
  item_type :: string
  item_text :: "string option"

record McpResponse =
  content :: "ContentItem list"
  meta :: "(string \<times> json) list option"
  isError :: "bool option"

definition text_item :: "string option \<Rightarrow> ContentItem" where
  "text_item t = \<lparr>item_type = ''text'', item_text = t\<rparr>"

subsection \<open>\<open>formatJsonResponse\<close>\<close>

text \<open>
  \<open>removeODataProps\<close> (declared twice in the source, lines 209-219 and 243-253, with the same
  body) deletes and recurses in place; the model returns the value the argument holds
  afterwards. The loop over \<open>Object.keys\<close> of an object is \<open>removeODataProps_forEach\<close>. The
  keys of an array are its indices, which never start with \<open>@odata.\<close>, so the loop over an
  array only recurses: \<open>removeODataProps_elements\<close>.
\<close>

fun removeODataProps :: "json \<Rightarrow> json"
  and removeODataProps_forEach :: "(string \<times> json) list \<Rightarrow> (string \<times> json) list"
  and removeODataProps_elements :: "json list \<Rightarrow> json list"
where
  "removeODataProps (JObj kvs) = JObj (removeODataProps_forEach kvs)"
| "removeODataProps (JArr xs) = JArr (removeODataProps_elements xs)"
| "removeODataProps JNull = JNull"
| "removeODataProps (JBool b) = JBool b"
| "removeODataProps (JNum n) = JNum n"
| "removeODataProps (JStr s) = JStr s"
| "removeODataProps_forEach [] = []"
| "removeODataProps_forEach ((key, v) # kvs) =
     (if startsWith key ''@odata.'' then removeODataProps_forEach kvs
      else if typeof (Some v) = ''object'' then (key, removeODataProps v) # removeODataProps_forEach kvs
      else (key, v) # removeODataProps_forEach kvs)"
| "removeODataProps_elements [] = []"
| "removeODataProps_elements (x # xs) =
     (if typeof (Some x) = ''object'' then removeODataProps x # removeODataProps_elements xs
      else x # removeODataProps_elements xs)"

text \<open>\<open>if (v) meta[key] = v\<close>.\<close>

definition set_if_truthy :: "(string \<times> json) list \<Rightarrow> string \<Rightarrow> json option \<Rightarrow> (string \<times> json) list" where
  "set_if_truthy m key v =
     (case v of None \<Rightarrow> m | Some x \<Rightarrow> if truthy (Some x) then obj_set m key x else m)"

text \<open>Lines 180-226: the value carries a \<open>_headers\<close> property.\<close>

definition formatWrapped :: "json \<Rightarrow> bool \<Rightarrow> McpResponse" where
  "formatWrapped responseData rawResponse =
     (let data = js_get responseData ''data'';
          m = set_if_truthy (set_if_truthy [] ''etag'' (js_get responseData ''_etag''))
                ''headers'' (js_get responseData ''_headers'')
      in if rawResponse then
           \<lparr>content = [text_item (JSON_stringify 0 data)], meta = Some m, isError = None\<rparr>
         else if data = Some JNull \<or> data = None then
           \<lparr>content = [text_item (JSON_stringify 0 (Some (JObj [(''success'', JBool True)])))],
            meta = Some m, isError = None\<rparr>
         else
           \<lparr>content = [text_item (JSON_stringify 2 (map_option removeODataProps data))],
            meta = Some m, isError = None\<rparr>)"

text \<open>Lines 229-259: every other value.\<close>

definition formatPlain :: "json option \<Rightarrow> bool \<Rightarrow> McpResponse" where
  "formatPlain data rawResponse =
     (if rawResponse then
        \<lparr>content = [text_item (JSON_stringify 0 data)], meta = None, isError = None\<rparr>
      else if data = Some JNull \<or> data = None then
        \<lparr>content = [text_item (JSON_stringify 0 (Some (JObj [(''success'', JBool True)])))],
         meta = None, isError = None\<rparr>
      else
        \<lparr>content = [text_item (JSON_stringify 2 (map_option removeODataProps data))],
         meta = None, isError = None\<rparr>)"

text \<open>
  \<open>formatJsonResponse(data, rawResponse = false)\<close>: an omitted second argument is \<open>false\<close>.
\<close>

definition formatJsonResponse :: "json option \<Rightarrow> bool option \<Rightarrow> McpResponse" where
  "formatJsonResponse data rawResponse =
     (let raw = (case rawResponse of None \<Rightarrow> False | Some b \<Rightarrow> b)
      in case data of
           None \<Rightarrow> formatPlain None raw
         | Some d \<Rightarrow>
             if truthy (Some d) \<and> typeof (Some d) = ''object'' \<and> js_in ''_headers'' d
             then formatWrapped d raw
             else formatPlain (Some d) raw)"

subsection \<open>Collaborators, configuration and state\<close>

datatype error = Error string

record request =
  url :: string
  req_method :: string
  req_headers :: "(string \<times> string) list"
  req_body :: "string option"

text \<open>A \<open>Response\<close> of the transport: \<open>resp_text\<close> is what \<open>response.text()\<close> resolves to.\<close>

record response =
  status :: nat
  statusText :: string
  resp_headers :: "(string \<times> string) list"
  resp_text :: string

text \<open>\<open>response.ok\<close>.\<close>

definition ok :: "response \<Rightarrow> bool" where
  "ok r = (200 \<le> status r \<and> status r \<le> 299)"

text \<open>
  \<open>Headers.get\<close>: header names compare without regard to ASCII case; the values of all
  matching headers are joined with a comma and a blank; no match is \<open>null\<close>.
\<close>

definition headers_get :: "(string \<times> string) list \<Rightarrow> string \<Rightarrow> string option" where
  "headers_get hs name =
     (let vs = map snd (filter (\<lambda>kv. toLowerCase (fst kv) = toLowerCase name) hs)
      in if vs = [] then None else Some (join '', '' vs))"

text \<open>What the refresher of lib/microsoft-auth resolves to: the fields this module reads.\<close>

record token_response =
  access_token :: string
  refresh_token :: "string option"

text \<open>
  The world outside the module. \<open>fetch k req\<close> is the outcome of the transport call \<open>req\<close>
  made after \<open>k\<close> earlier transport calls, so that a server may answer the same request
  differently the second time; \<open>Inl\<close> is a rejected promise.
\<close>

record env =
  getToken :: "error + string option"
  fetch :: "nat \<Rightarrow> request \<Rightarrow> error + response"
  lib_refreshAccessToken :: "string \<Rightarrow> string \<Rightarrow> string \<Rightarrow> string \<Rightarrow> error + token_response"
  MS365_MCP_TENANT_ID :: "string option"
  MS365_MCP_CLIENT_ID :: "string option"
  MS365_MCP_CLIENT_SECRET :: "string option"
  JSON_parse :: "string \<Rightarrow> json option"

text \<open>
  The calls the module makes to its collaborators, in order: the pull from the credential
  source, a transport call with its request, a refresher call with its four arguments
  (refresh token, client id, client secret, tenant id).
\<close>

datatype event =
    GetToken
  | Fetch request
  | Refresh string string string string

fun is_Fetch :: "event \<Rightarrow> bool" where
  "is_Fetch (Fetch r) = True"
| "is_Fetch e = False"

fun is_Refresh :: "event \<Rightarrow> bool" where
  "is_Refresh (Refresh a b c d) = True"
| "is_Refresh e = False"

text \<open>The two private fields of \<open>GraphClient\<close>, and the calls made so far.\<close>

record state =
  this_accessToken :: "string option"
  this_refreshToken :: "string option"
  trace :: "event list"

text \<open>The options of a call; the field \<open>method\<close> is \<open>http_method\<close> here.\<close>

record GraphRequestOptions =
  headers :: "(string \<times> string) list option"
  http_method :: "string option"
  body :: "string option"
  rawResponse :: "bool option"
  includeHeaders :: "bool option"
  accessToken :: "string option"
  refreshToken :: "string option"

text \<open>
  A computation that reads and writes the state and either returns or throws; \<open>bind_io\<close> is
  sequencing (\<open>await\<close>, or the next statement): a throw skips the rest.
\<close>

type_synonym 'a io = "state \<Rightarrow> (error + 'a) \<times> state"

definition return_io :: "'a \<Rightarrow> 'a io" where
  "return_io x s = (Inr x, s)"

definition throw_io :: "error \<Rightarrow> 'a io" where
  "throw_io e s = (Inl e, s)"

definition bind_io :: "'a io \<Rightarrow> ('a \<Rightarrow> 'b io) \<Rightarrow> 'b io" where
  "bind_io m f s = (case m s of (Inl e, s') \<Rightarrow> (Inl e, s') | (Inr x, s') \<Rightarrow> f x s')"

text \<open>The string of an optional string, read only where the option is truthy.\<close>

fun str_of :: "string option \<Rightarrow> string" where
  "str_of None = []"
| "str_of (Some s) = s"

subsection \<open>The methods of \<open>GraphClient\<close>\<close>

text \<open>Lines 41-44.\<close>

definition setOAuthTokens :: "string \<Rightarrow> string option \<Rightarrow> state \<Rightarrow> state" where
  "setOAuthTokens a r s =
     s\<lparr>this_accessToken := Some a, this_refreshToken := or_str r None\<rparr>"

text \<open>
  Lines 140-158. The object spread \<open>{..., ...options.headers}\<close> writes the caller's headers
  over the two defaults.
\<close>

definition spread :: "(string \<times> 'v) list \<Rightarrow> (string \<times> 'v) list \<Rightarrow> (string \<times> 'v) list" where
  "spread base extra = foldl (\<lambda>acc kv. obj_set acc (fst kv) (snd kv)) base extra"

definition build_request :: "string \<Rightarrow> string \<Rightarrow> GraphRequestOptions \<Rightarrow> request" where
  "build_request endpoint token options =
     \<lparr>url = ''https://graph.microsoft.com/v1.0'' @ endpoint,
      req_method = str_of (or_str (http_method options) (Some ''GET'')),
      req_headers =
        spread [(''Authorization'', ''Bearer '' @ token), (''Content-Type'', ''application/json'')]
          (case headers options of None \<Rightarrow> [] | Some hs \<Rightarrow> hs),
      req_body = body options\<rparr>"

definition performRequest :: "env \<Rightarrow> string \<Rightarrow> string \<Rightarrow> GraphRequestOptions \<Rightarrow> response io" where
  "performRequest E endpoint token options s =
     (let req = build_request endpoint token options
      in (fetch E (length (filter is_Fetch (trace s))) req, s\<lparr>trace := trace s @ [Fetch req]\<rparr>))"

text \<open>Lines 124-138.\<close>

definition refreshAccessToken :: "env \<Rightarrow> string \<Rightarrow> unit io" where
  "refreshAccessToken E refreshTok s =
     (let tenantId = str_of (or_str (MS365_MCP_TENANT_ID E) (Some ''common''));
          clientId = str_of (or_str (MS365_MCP_CLIENT_ID E)
                       (Some ''084a3e9f-a9f4-43f7-89f9-d229cf97853e''));
          clientSecret = MS365_MCP_CLIENT_SECRET E
      in if \<not> truthy_str clientSecret then
           (Inl (Error ''MS365_MCP_CLIENT_SECRET not configured''), s)
         else
           (let s1 = s\<lparr>trace := trace s @ [Refresh refreshTok clientId (str_of clientSecret) tenantId]\<rparr>
            in case lib_refreshAccessToken E refreshTok clientId (str_of clientSecret) tenantId of
                 Inl e \<Rightarrow> (Inl e, s1)
               | Inr r \<Rightarrow>
                   (Inr (),
                    s1\<lparr>this_accessToken := Some (access_token r),
                       this_refreshToken :=
                         (if truthy_str (refresh_token r) then refresh_token r
                          else this_refreshToken s1)\<rparr>)))"

text \<open>
  Lines 48-49: \<open>options.accessToken || this.accessToken || (await this.authManager.getToken())\<close>.
  The right operand of \<open>||\<close> is evaluated only when the left one is falsy.
\<close>

definition resolveAccessToken :: "env \<Rightarrow> GraphRequestOptions \<Rightarrow> string option io" where
  "resolveAccessToken E options s =
     (if truthy_str (accessToken options) then (Inr (accessToken options), s)
      else if truthy_str (this_accessToken s) then (Inr (this_accessToken s), s)
      else (getToken E, s\<lparr>trace := trace s @ [GetToken]\<rparr>))"

text \<open>Lines 57-71: the request, and the one refresh and retry after a 401.\<close>

definition requestWithRetry ::
  "env \<Rightarrow> string \<Rightarrow> string \<Rightarrow> string option \<Rightarrow> GraphRequestOptions \<Rightarrow> response io" where
  "requestWithRetry E endpoint token refreshTok options =
     bind_io (performRequest E endpoint token options) (\<lambda>response.
       if status response = 401 \<and> truthy_str refreshTok then
         bind_io (refreshAccessToken E (str_of refreshTok)) (\<lambda>u s.
           (let token' = or_str (this_accessToken s) (Some token)
            in if \<not> truthy_str token' then
                 throw_io (Error ''Failed to refresh access token'') s
               else performRequest E endpoint (str_of token') options s))
       else return_io response)"

text \<open>Lines 73-117: classification of the final response and normalisation of its body.\<close>

definition api_error :: "response \<Rightarrow> string" where
  "api_error r =
     ''Microsoft Graph API error: '' @ string_of_nat (status r) @ '' '' @ statusText r
       @ '' - '' @ resp_text r"

definition scope_error :: "response \<Rightarrow> string" where
  "scope_error r =
     ''Microsoft Graph API scope error: '' @ string_of_nat (status r) @ '' '' @ statusText r
       @ '' - '' @ resp_text r
       @ ''. This tool requires organization mode. Please restart with --org-mode flag.''"

definition handleResponse :: "env \<Rightarrow> GraphRequestOptions \<Rightarrow> response \<Rightarrow> error + json" where
  "handleResponse E options r =
     (if status r = 403 then
        (let errorText = resp_text r
         in if str_includes errorText ''scope'' \<or> str_includes errorText ''permission''
            then Inl (Error (scope_error r))
            else Inl (Error (api_error r)))
      else if \<not> ok r then Inl (Error (api_error r))
      else
        (let text = resp_text r;
             result =
               (if text = [] then JObj [(''message'', JStr ''OK!'')]
                else case JSON_parse E text of
                       Some v \<Rightarrow> v
                     | None \<Rightarrow> JObj [(''message'', JStr ''OK!''), (''rawResponse'', JStr text)])
         in if includeHeaders options = Some True then
              (let etag = or_str (headers_get (resp_headers r) ''ETag'')
                            (headers_get (resp_headers r) ''etag'')
               in if truthy (Some result) \<and> typeof (Some result) = ''object''
                     \<and> \<not> isArray (Some result)
                  then (case result of
                          JObj kvs \<Rightarrow>
                            Inr (JObj (obj_set kvs ''_etag''
                                   (JStr (str_of (or_str etag (Some ''no-etag-found''))))))
                        | _ \<Rightarrow> Inr result)
                  else Inr result)
            else Inr result))"

text \<open>
  Lines 46-122. The \<open>catch\<close> of lines 118-121 logs and rethrows, which changes nothing here.
\<close>

definition makeRequest :: "env \<Rightarrow> string \<Rightarrow> GraphRequestOptions \<Rightarrow> json io" where
  "makeRequest E endpoint options =
     bind_io (resolveAccessToken E options) (\<lambda>token s.
       (let refreshTok = or_str (refreshToken options) (this_refreshToken s)
        in if \<not> truthy_str token then throw_io (Error ''No access token available'') s
           else bind_io (requestWithRetry E endpoint (str_of token) refreshTok options)
                  (\<lambda>r s'. (handleResponse E options r, s')) s))"

text \<open>Lines 160-175: every throw of \<open>makeRequest\<close> becomes the error envelope.\<close>

definition graphRequest :: "env \<Rightarrow> string \<Rightarrow> GraphRequestOptions \<Rightarrow> state \<Rightarrow> McpResponse \<times> state" where
  "graphRequest E endpoint options s =
     (case makeRequest E endpoint options s of
        (Inr result, s') \<Rightarrow> (formatJsonResponse (Some result) (rawResponse options), s')
      | (Inl (Error message), s') \<Rightarrow>
          (\<lparr>content = [text_item (JSON_stringify 0 (Some (JObj [(''error'', JStr message)])))],
            meta = None, isError = Some True\<rparr>, s'))"

subsection \<open>Notions used to state the properties\<close>

text \<open>The calls a run added to the trace, and the stored credential pair.\<close>

definition new_calls :: "state \<Rightarrow> state \<Rightarrow> event list" where
  "new_calls s s' = drop (length (trace s)) (trace s')"

definition stored_pair :: "state \<Rightarrow> string option \<times> string option" where
  "stored_pair s = (this_accessToken s, this_refreshToken s)"

text \<open>No key of the value, at any depth, starts with \<open>@odata.\<close>.\<close>

fun odata_free :: "json \<Rightarrow> bool"
  and odata_free_members :: "(string \<times> json) list \<Rightarrow> bool"
  and odata_free_elements :: "json list \<Rightarrow> bool"
where
  "odata_free (JObj kvs) = odata_free_members kvs"
| "odata_free (JArr xs) = odata_free_elements xs"
| "odata_free JNull = True"
| "odata_free (JBool b) = True"
| "odata_free (JNum n) = True"
| "odata_free (JStr s) = True"
| "odata_free_members [] = True"
| "odata_free_members ((k, v) # kvs) =
     (\<not> startsWith k ''@odata.'' \<and> odata_free v \<and> odata_free_members kvs)"
| "odata_free_elements [] = True"
| "odata_free_elements (x # xs) = (odata_free x \<and> odata_free_elements xs)"

text \<open>
  The three-way normalisation of a body text as the specification words it (section 4.4),
  for a given parser.
\<close>

definition body_normalization :: "(string \<Rightarrow> json option) \<Rightarrow> string \<Rightarrow> json" where
  "body_normalization parse t =
     (if t = [] then JObj [(''message'', JStr ''OK!'')]
      else case parse t of
             Some v \<Rightarrow> v
           | None \<Rightarrow> JObj [(''message'', JStr ''OK!''), (''rawResponse'', JStr t)])"

text \<open>
  The refresher call a refresh with token \<open>rt\<close> makes under the configuration of \<open>E\<close>, and
  its outcome.
\<close>

definition refresh_call :: "env \<Rightarrow> string \<Rightarrow> event" where
  "refresh_call E rt =
     Refresh rt
       (str_of (or_str (MS365_MCP_CLIENT_ID E) (Some ''084a3e9f-a9f4-43f7-89f9-d229cf97853e'')))
       (str_of (MS365_MCP_CLIENT_SECRET E))
       (str_of (or_str (MS365_MCP_TENANT_ID E) (Some ''common'')))"

definition refresh_outcome :: "env \<Rightarrow> string \<Rightarrow> error + token_response" where
  "refresh_outcome E rt =
     lib_refreshAccessToken E rt
       (str_of (or_str (MS365_MCP_CLIENT_ID E) (Some ''084a3e9f-a9f4-43f7-89f9-d229cf97853e'')))
       (str_of (MS365_MCP_CLIENT_SECRET E))
       (str_of (or_str (MS365_MCP_TENANT_ID E) (Some ''common'')))"

subsection \<open>Concrete inputs\<close>

text \<open>
  A server that answers 401 to the first transport call and 200 with a small OData body to
  every later one, a refresher that returns a new access token and no refresh token, and a
  configured client secret.
\<close>

definition resp401 :: response where
  "resp401 = \<lparr>status = 401, statusText = ''Unauthorized'', resp_headers = [],
     resp_text = ''expired''\<rparr>"

definition resp200 :: response where
  \<open>resp200 = \<lparr>status = 200, statusText = ''OK'', resp_headers = [(''etag'', ''W/1'')],
     resp_text = ''{"@odata.context":"c","id":7}''\<rparr>\<close>

definition resp403 :: response where
  "resp403 = \<lparr>status = 403, statusText = ''Forbidden'', resp_headers = [],
     resp_text = ''Insufficient privileges: scope''\<rparr>"

text \<open>A 200 whose \<open>ETag\<close> header is present with an empty value, and one with an array body.\<close>

definition resp_empty_etag :: response where
  "resp_empty_etag = \<lparr>status = 200, statusText = ''OK'', resp_headers = [(''ETag'', [])],
     resp_text = ''{}''\<rparr>"

definition resp_array :: response where
  "resp_array = \<lparr>status = 200, statusText = ''OK'', resp_headers = [(''ETag'', ''W/2'')],
     resp_text = ''[1]''\<rparr>"

text \<open>A 200 whose body is an object with a \<open>_headers\<close> property and no \<open>data\<close> property.\<close>

definition resp_headers_body :: response where
  \<open>resp_headers_body = \<lparr>status = 200, statusText = ''OK'', resp_headers = [],
     resp_text = ''{"_headers":{}}''\<rparr>\<close>

text \<open>What \<open>JSON.parse\<close> returns on the bodies above; every other text is taken as malformed.\<close>

definition parse_ex :: "string \<Rightarrow> json option" where
  \<open>parse_ex t =
     (if t = ''{"@odata.context":"c","id":7}''
        then Some (JObj [(''@odata.context'', JStr ''c''), (''id'', JNum ''7'')])
      else if t = ''{}'' then Some (JObj [])
      else if t = ''[1]'' then Some (JArr [JNum ''1''])
      else if t = ''{"_headers":{}}'' then Some (JObj [(''_headers'', JObj [])])
      else None)\<close>

definition env_ex :: env where
  "env_ex = \<lparr>getToken = Inr (Some ''pulled''),
     fetch = (\<lambda>k req. if k = 0 then Inr resp401 else Inr resp200),
     lib_refreshAccessToken =
       (\<lambda>rt cid sec tid. Inr \<lparr>access_token = ''new'', refresh_token = None\<rparr>),
     MS365_MCP_TENANT_ID = None, MS365_MCP_CLIENT_ID = None,
     MS365_MCP_CLIENT_SECRET = Some ''shh'',
     JSON_parse = parse_ex\<rparr>"

definition opts_ex :: GraphRequestOptions where
  "opts_ex = \<lparr>headers = None, http_method = None, body = None, rawResponse = None,
     includeHeaders = None, accessToken = None, refreshToken = None\<rparr>"

definition st_ex :: state where
  "st_ex = \<lparr>this_accessToken = Some ''old'', this_refreshToken = Some ''r0'', trace = []\<rparr>"

definition st_empty :: state where
  "st_empty = \<lparr>this_accessToken = None, this_refreshToken = None, trace = []\<rparr>"

section \<open>Properties\<close>

subsection \<open>Strings and truthiness\<close>

lemma truthy_str_iff: "truthy_str t \<longleftrightarrow> (\<exists>a. t = Some a \<and> a \<noteq> [])"
  by (cases t) auto

lemma truthy_str_not_None: "truthy_str t \<Longrightarrow> t \<noteq> None"
  by (cases t) auto

lemma startsWith_append: "startsWith (p @ b) p"
  by (simp add: startsWith_def)

lemma str_includes_append: "str_includes (a @ p @ b) p"
proof (induction a)
  case Nil
  have "startsWith (p @ b) p" by (rule startsWith_append)
  then show ?case by (cases "p @ b") auto
next
  case (Cons c a)
  then show ?case by simp
qed

text \<open>\<open>str_includes\<close> is the substring relation.\<close>

lemma str_includes_iff: "str_includes s p \<longleftrightarrow> (\<exists>a b. s = a @ p @ b)"
proof
  show "str_includes s p \<Longrightarrow> \<exists>a b. s = a @ p @ b"
  proof (induction s)
    case Nil
    then show ?case by simp
  next
    case (Cons c cs)
    show ?case
    proof (cases "startsWith (c # cs) p")
      case True
      then have "c # cs = [] @ p @ drop (length p) (c # cs)"
        by (metis startsWith_def append_Nil append_take_drop_id)
      then show ?thesis by blast
    next
      case False
      with Cons.prems have "str_includes cs p" by simp
      then obtain a b where "cs = a @ p @ b" using Cons.IH by blast
      then have "c # cs = (c # a) @ p @ b" by simp
      then show ?thesis by blast
    qed
  qed
next
  show "\<exists>a b. s = a @ p @ b \<Longrightarrow> str_includes s p"
    using str_includes_append by blast
qed

subsection \<open>Token refresh\<close>

text \<open>
  C10. After a successful refresh the stored access token is the access token of the
  refresher's response. The stored refresh token is the response's refresh token when the
  response carries a non-empty one; it changes only when the response contains a refresh
  token, and a response without one leaves the old refresh token in place.
\<close>

theorem refresh_replaces_tokens:
  assumes "refreshAccessToken E rt s = (Inr u, s')"
  shows "\<exists>cid sec tid r. lib_refreshAccessToken E rt cid sec tid = Inr r
           \<and> trace s' = trace s @ [Refresh rt cid sec tid]
           \<and> this_accessToken s' = Some (access_token r)
           \<and> (refresh_token r = None \<longrightarrow> this_refreshToken s' = this_refreshToken s)
           \<and> (this_refreshToken s' \<noteq> this_refreshToken s \<longrightarrow>
                 refresh_token r \<noteq> None \<and> this_refreshToken s' = refresh_token r)
           \<and> (truthy_str (refresh_token r) \<longrightarrow> this_refreshToken s' = refresh_token r)"
  using assms
  by (auto simp: refreshAccessToken_def Let_def split: if_splits sum.splits
        dest: truthy_str_not_None)

theorem refresh_replaces_tokens_witness:
  "refreshAccessToken env_ex ''r0'' st_ex =
     (Inr (), \<lparr>this_accessToken = Some ''new'', this_refreshToken = Some ''r0'',
               trace = [Refresh ''r0'' ''084a3e9f-a9f4-43f7-89f9-d229cf97853e'' ''shh'' ''common'']\<rparr>)
   \<and> (\<exists>cid sec tid r. lib_refreshAccessToken env_ex ''r0'' cid sec tid = Inr r
        \<and> Some (access_token r) = Some ''new'' \<and> refresh_token r = None)"
proof -
  have run: "refreshAccessToken env_ex ''r0'' st_ex =
     (Inr (), \<lparr>this_accessToken = Some ''new'', this_refreshToken = Some ''r0'',
               trace = [Refresh ''r0'' ''084a3e9f-a9f4-43f7-89f9-d229cf97853e'' ''shh'' ''common'']\<rparr>)"
    by (simp add: refreshAccessToken_def env_ex_def st_ex_def or_str_def)
  from refresh_replaces_tokens [OF run] show ?thesis
    using run by (simp add: env_ex_def)
qed

subsection \<open>The structure of a call\<close>

lemma resolveAccessToken_frame:
  assumes "resolveAccessToken E options s = (res, s1)"
  shows "this_accessToken s1 = this_accessToken s \<and> this_refreshToken s1 = this_refreshToken s
         \<and> filter is_Fetch (trace s1) = filter is_Fetch (trace s)
         \<and> filter is_Refresh (trace s1) = filter is_Refresh (trace s)"
  using assms by (auto simp: resolveAccessToken_def split: if_splits)

lemma makeRequest_no_token:
  assumes "resolveAccessToken E options s = (Inr tok, s1)" and "\<not> truthy_str tok"
  shows "makeRequest E endpoint options s = (Inl (Error ''No access token available''), s1)"
  using assms by (simp add: makeRequest_def bind_io_def throw_io_def)

lemma makeRequest_resolve_throws:
  assumes "resolveAccessToken E options s = (Inl e, s1)"
  shows "makeRequest E endpoint options s = (Inl e, s1)"
  using assms by (simp add: makeRequest_def bind_io_def)

lemma makeRequest_unfold:
  assumes "resolveAccessToken E options s = (Inr tok, s1)" and "truthy_str tok"
  shows "makeRequest E endpoint options s =
     (case requestWithRetry E endpoint (str_of tok)
             (or_str (refreshToken options) (this_refreshToken s)) options s1 of
        (Inl e, s2) \<Rightarrow> (Inl e, s2)
      | (Inr r, s2) \<Rightarrow> (handleResponse E options r, s2))"
  using assms resolveAccessToken_frame[OF assms(1)]
  by (simp add: makeRequest_def bind_io_def split: prod.splits sum.splits)

lemma requestWithRetry_transport_failure:
  assumes "fetch E (length (filter is_Fetch (trace s))) (build_request endpoint a options) = Inl e"
  shows "requestWithRetry E endpoint a rt options s =
           (Inl e, s\<lparr>trace := trace s @ [Fetch (build_request endpoint a options)]\<rparr>)"
  using assms by (simp add: requestWithRetry_def bind_io_def performRequest_def)

lemma requestWithRetry_no_retry:
  assumes "fetch E (length (filter is_Fetch (trace s))) (build_request endpoint a options) = Inr r"
    and "\<not> (status r = 401 \<and> truthy_str rt)"
  shows "requestWithRetry E endpoint a rt options s =
           (Inr r, s\<lparr>trace := trace s @ [Fetch (build_request endpoint a options)]\<rparr>)"
  using assms by (auto simp add: requestWithRetry_def bind_io_def performRequest_def return_io_def)

lemma requestWithRetry_refresh_fails:
  assumes "fetch E (length (filter is_Fetch (trace s))) (build_request endpoint a options) = Inr r"
    and "status r = 401" and "truthy_str rt"
    and "refreshAccessToken E (str_of rt)
           (s\<lparr>trace := trace s @ [Fetch (build_request endpoint a options)]\<rparr>) = (Inl e, s2)"
  shows "requestWithRetry E endpoint a rt options s = (Inl e, s2)"
  using assms by (auto simp add: requestWithRetry_def bind_io_def performRequest_def return_io_def)

lemma requestWithRetry_retry:
  assumes "fetch E (length (filter is_Fetch (trace s))) (build_request endpoint a options) = Inr r"
    and "status r = 401" and "truthy_str rt" and "a \<noteq> []"
    and "refreshAccessToken E (str_of rt)
           (s\<lparr>trace := trace s @ [Fetch (build_request endpoint a options)]\<rparr>) = (Inr u, s2)"
  shows "requestWithRetry E endpoint a rt options s =
     performRequest E endpoint (str_of (or_str (this_accessToken s2) (Some a))) options s2"
  using assms
  by (auto simp add: requestWithRetry_def bind_io_def performRequest_def return_io_def
        or_str_def throw_io_def)

lemma refreshAccessToken_no_secret:
  assumes "\<not> truthy_str (MS365_MCP_CLIENT_SECRET E)"
  shows "refreshAccessToken E rt s = (Inl (Error ''MS365_MCP_CLIENT_SECRET not configured''), s)"
  using assms by (simp add: refreshAccessToken_def Let_def)

lemma refreshAccessToken_trace:
  assumes "truthy_str (MS365_MCP_CLIENT_SECRET E)"
  shows "trace (snd (refreshAccessToken E rt s)) =
           trace s @ [Refresh rt (str_of (or_str (MS365_MCP_CLIENT_ID E)
                                    (Some ''084a3e9f-a9f4-43f7-89f9-d229cf97853e'')))
                        (str_of (MS365_MCP_CLIENT_SECRET E))
                        (str_of (or_str (MS365_MCP_TENANT_ID E) (Some ''common'')))]"
  using assms by (simp add: refreshAccessToken_def Let_def split: sum.splits)

lemma or_default_cases:
  "str_of (or_str v (Some d)) = (case v of None \<Rightarrow> d | Some x \<Rightarrow> if x = [] then d else x)"
  by (cases v) (auto simp: or_str_def)

text \<open>
  C8. A refresh without a configured client secret fails at once with the configuration
  error and leaves state and trace as they were: the refresher is not invoked. With a
  secret, the refresher is invoked once, with the refresh token, the client id (the fixed
  application id when \<open>MS365_MCP_CLIENT_ID\<close> is unset), the secret and the tenant id
  (\<open>common\<close> when \<open>MS365_MCP_TENANT_ID\<close> is unset). In \<open>makeRequest\<close>, a 401 with a refresh
  token and no secret ends the call with the configuration error after the one transport
  call: the request is not retried.
\<close>

theorem refresh_configuration:
  "(\<not> truthy_str (MS365_MCP_CLIENT_SECRET E) \<longrightarrow>
       refreshAccessToken E rt s = (Inl (Error ''MS365_MCP_CLIENT_SECRET not configured''), s))
   \<and> (truthy_str (MS365_MCP_CLIENT_SECRET E) \<longrightarrow>
       new_calls s (snd (refreshAccessToken E rt s)) =
         [Refresh rt
            (case MS365_MCP_CLIENT_ID E of
               None \<Rightarrow> ''084a3e9f-a9f4-43f7-89f9-d229cf97853e''
             | Some c \<Rightarrow> if c = [] then ''084a3e9f-a9f4-43f7-89f9-d229cf97853e'' else c)
            (str_of (MS365_MCP_CLIENT_SECRET E))
            (case MS365_MCP_TENANT_ID E of
               None \<Rightarrow> ''common''
             | Some t \<Rightarrow> if t = [] then ''common'' else t)])
   \<and> (\<forall>tok s1 r.
         resolveAccessToken E options s = (Inr tok, s1) \<and> truthy_str tok
         \<and> fetch E (length (filter is_Fetch (trace s)))
               (build_request endpoint (str_of tok) options) = Inr r
         \<and> status r = 401
         \<and> truthy_str (or_str (refreshToken options) (this_refreshToken s))
         \<and> \<not> truthy_str (MS365_MCP_CLIENT_SECRET E)
       \<longrightarrow> makeRequest E endpoint options s =
             (Inl (Error ''MS365_MCP_CLIENT_SECRET not configured''),
              s1\<lparr>trace := trace s1 @ [Fetch (build_request endpoint (str_of tok) options)]\<rparr>))"
proof (intro conjI impI allI)
  assume "\<not> truthy_str (MS365_MCP_CLIENT_SECRET E)"
  then show "refreshAccessToken E rt s = (Inl (Error ''MS365_MCP_CLIENT_SECRET not configured''), s)"
    by (rule refreshAccessToken_no_secret)
next
  assume "truthy_str (MS365_MCP_CLIENT_SECRET E)"
  from refreshAccessToken_trace [OF this, of rt s]
  show "new_calls s (snd (refreshAccessToken E rt s)) =
         [Refresh rt
            (case MS365_MCP_CLIENT_ID E of
               None \<Rightarrow> ''084a3e9f-a9f4-43f7-89f9-d229cf97853e''
             | Some c \<Rightarrow> if c = [] then ''084a3e9f-a9f4-43f7-89f9-d229cf97853e'' else c)
            (str_of (MS365_MCP_CLIENT_SECRET E))
            (case MS365_MCP_TENANT_ID E of
               None \<Rightarrow> ''common''
             | Some t \<Rightarrow> if t = [] then ''common'' else t)]"
    by (simp add: new_calls_def or_default_cases)
next
  fix tok s1 r
  assume a: "resolveAccessToken E options s = (Inr tok, s1) \<and> truthy_str tok
         \<and> fetch E (length (filter is_Fetch (trace s)))
               (build_request endpoint (str_of tok) options) = Inr r
         \<and> status r = 401
         \<and> truthy_str (or_str (refreshToken options) (this_refreshToken s))
         \<and> \<not> truthy_str (MS365_MCP_CLIENT_SECRET E)"
  let ?req = "build_request endpoint (str_of tok) options"
  let ?rt = "or_str (refreshToken options) (this_refreshToken s)"
  from a have res: "resolveAccessToken E options s = (Inr tok, s1)" and tok: "truthy_str tok"
    by simp_all
  from resolveAccessToken_frame [OF res]
  have idx: "length (filter is_Fetch (trace s1)) = length (filter is_Fetch (trace s))" by simp
  from a have f: "fetch E (length (filter is_Fetch (trace s1))) ?req = Inr r"
    by (simp add: idx)
  from a have st: "status r = 401" and rt: "truthy_str ?rt"
    and sec: "\<not> truthy_str (MS365_MCP_CLIENT_SECRET E)" by simp_all
  have "requestWithRetry E endpoint (str_of tok) ?rt options s1
          = (Inl (Error ''MS365_MCP_CLIENT_SECRET not configured''), s1\<lparr>trace := trace s1 @ [Fetch ?req]\<rparr>)"
    by (rule requestWithRetry_refresh_fails [OF f st rt refreshAccessToken_no_secret [OF sec]])
  then show "makeRequest E endpoint options s =
             (Inl (Error ''MS365_MCP_CLIENT_SECRET not configured''),
              s1\<lparr>trace := trace s1 @ [Fetch ?req]\<rparr>)"
    by (simp add: makeRequest_unfold [OF res tok])
qed

theorem refresh_configuration_witness:
  "refreshAccessToken (env_ex\<lparr>MS365_MCP_CLIENT_SECRET := None\<rparr>) ''r0'' st_ex
     = (Inl (Error ''MS365_MCP_CLIENT_SECRET not configured''), st_ex)
   \<and> new_calls st_ex (snd (refreshAccessToken env_ex ''r0'' st_ex))
       = [Refresh ''r0'' ''084a3e9f-a9f4-43f7-89f9-d229cf97853e'' ''shh'' ''common'']
   \<and> makeRequest (env_ex\<lparr>MS365_MCP_CLIENT_SECRET := None\<rparr>) ''/me'' opts_ex st_ex
       = (Inl (Error ''MS365_MCP_CLIENT_SECRET not configured''),
          st_ex\<lparr>trace := [Fetch (build_request ''/me'' ''old'' opts_ex)]\<rparr>)"
proof -
  let ?E = "env_ex\<lparr>MS365_MCP_CLIENT_SECRET := None\<rparr>"
  have h1: "\<not> truthy_str (MS365_MCP_CLIENT_SECRET ?E)" by simp
  have h2: "truthy_str (MS365_MCP_CLIENT_SECRET env_ex)" by (simp add: env_ex_def)
  have h3: "resolveAccessToken ?E opts_ex st_ex = (Inr (Some ''old''), st_ex) \<and> truthy_str (Some ''old'')
         \<and> fetch ?E (length (filter is_Fetch (trace st_ex)))
               (build_request ''/me'' (str_of (Some ''old'')) opts_ex) = Inr resp401
         \<and> status resp401 = 401
         \<and> truthy_str (or_str (refreshToken opts_ex) (this_refreshToken st_ex))
         \<and> \<not> truthy_str (MS365_MCP_CLIENT_SECRET ?E)"
    by (simp add: resolveAccessToken_def opts_ex_def st_ex_def env_ex_def resp401_def or_str_def)
  from refresh_configuration [of ?E "''r0''" st_ex opts_ex "''/me''"] h1 h3
  have a: "refreshAccessToken ?E ''r0'' st_ex
     = (Inl (Error ''MS365_MCP_CLIENT_SECRET not configured''), st_ex)"
    and c: "makeRequest ?E ''/me'' opts_ex st_ex
       = (Inl (Error ''MS365_MCP_CLIENT_SECRET not configured''),
          st_ex\<lparr>trace := trace st_ex @ [Fetch (build_request ''/me'' (str_of (Some ''old'')) opts_ex)]\<rparr>)"
    by blast+
  from refresh_configuration [of env_ex "''r0''" st_ex opts_ex "''/me''"] h2
  have b: "new_calls st_ex (snd (refreshAccessToken env_ex ''r0'' st_ex))
       = [Refresh ''r0'' ''084a3e9f-a9f4-43f7-89f9-d229cf97853e'' ''shh'' ''common'']"
    by (simp add: env_ex_def)
  from a b c show ?thesis by (simp add: st_ex_def)
qed

subsection \<open>Classification of the final response\<close>

lemma handleResponse_scope:
  assumes "status r = 403"
    and "str_includes (resp_text r) ''scope'' \<or> str_includes (resp_text r) ''permission''"
  shows "handleResponse E options r = Inl (Error (scope_error r))"
  using assms by (simp add: handleResponse_def)

lemma handleResponse_api_error:
  assumes "\<not> ok r"
    and "\<not> (status r = 403
            \<and> (str_includes (resp_text r) ''scope'' \<or> str_includes (resp_text r) ''permission''))"
  shows "handleResponse E options r = Inl (Error (api_error r))"
  using assms by (auto simp add: handleResponse_def)

lemma graphRequest_error:
  assumes "makeRequest E endpoint options s = (Inl (Error m), s')"
  shows "graphRequest E endpoint options s =
           (\<lparr>content = [text_item (JSON_stringify 0 (Some (JObj [(''error'', JStr m)])))],
             meta = None, isError = Some True\<rparr>, s')"
  using assms by (simp add: graphRequest_def)

text \<open>
  C5. Let \<open>r\<close> be the response the request phase of a call ends with (the first response,
  or the retried one). If its status is 403 and its body contains \<open>scope\<close> or \<open>permission\<close>,
  the call throws the scope error, whose message holds the status, the status text and the
  body and asks for organization mode. Every other response outside 200..299 makes the call
  throw the generic API error with status, status text and body.
\<close>

theorem response_classification:
  assumes "resolveAccessToken E options s = (Inr tok, s1)" and "truthy_str tok"
    and "requestWithRetry E endpoint (str_of tok)
           (or_str (refreshToken options) (this_refreshToken s)) options s1 = (Inr r, s2)"
  shows "(status r = 403
            \<and> (str_includes (resp_text r) ''scope'' \<or> str_includes (resp_text r) ''permission'')
          \<longrightarrow> makeRequest E endpoint options s =
                (Inl (Error (''Microsoft Graph API scope error: '' @ string_of_nat (status r)
                   @ '' '' @ statusText r @ '' - '' @ resp_text r
                   @ ''. This tool requires organization mode. Please restart with --org-mode flag.'')),
                 s2))
       \<and> (\<not> (200 \<le> status r \<and> status r \<le> 299)
            \<and> \<not> (status r = 403
                  \<and> (str_includes (resp_text r) ''scope'' \<or> str_includes (resp_text r) ''permission''))
          \<longrightarrow> makeRequest E endpoint options s =
                (Inl (Error (''Microsoft Graph API error: '' @ string_of_nat (status r)
                   @ '' '' @ statusText r @ '' - '' @ resp_text r)),
                 s2))"
proof -
  have m: "makeRequest E endpoint options s = (handleResponse E options r, s2)"
    using assms(3) by (simp add: makeRequest_unfold [OF assms(1,2)])
  show ?thesis
  proof (intro conjI impI)
    assume "status r = 403
        \<and> (str_includes (resp_text r) ''scope'' \<or> str_includes (resp_text r) ''permission'')"
    then have "handleResponse E options r = Inl (Error (scope_error r))"
      by (intro handleResponse_scope) simp_all
    then show "makeRequest E endpoint options s =
                (Inl (Error (''Microsoft Graph API scope error: '' @ string_of_nat (status r)
                   @ '' '' @ statusText r @ '' - '' @ resp_text r
                   @ ''. This tool requires organization mode. Please restart with --org-mode flag.'')),
                 s2)"
      by (simp add: m scope_error_def)
  next
    assume a: "\<not> (200 \<le> status r \<and> status r \<le> 299)
            \<and> \<not> (status r = 403
                  \<and> (str_includes (resp_text r) ''scope'' \<or> str_includes (resp_text r) ''permission''))"
    then have "\<not> ok r" by (simp add: ok_def)
    with a have "handleResponse E options r = Inl (Error (api_error r))"
      by (intro handleResponse_api_error) simp_all
    then show "makeRequest E endpoint options s =
                (Inl (Error (''Microsoft Graph API error: '' @ string_of_nat (status r)
                   @ '' '' @ statusText r @ '' - '' @ resp_text r)),
                 s2)"
      by (simp add: m api_error_def)
  qed
qed

theorem response_classification_witness:
  "makeRequest (env_ex\<lparr>fetch := \<lambda>k q. Inr resp403\<rparr>) ''/me'' opts_ex st_ex =
     (Inl (Error (''Microsoft Graph API scope error: 403 Forbidden - Insufficient privileges: scope''
        @ ''. This tool requires organization mode. Please restart with --org-mode flag.'')),
      st_ex\<lparr>trace := [Fetch (build_request ''/me'' ''old'' opts_ex)]\<rparr>)
   \<and> makeRequest env_ex ''/me'' opts_ex (st_ex\<lparr>this_refreshToken := None\<rparr>) =
     (Inl (Error ''Microsoft Graph API error: 401 Unauthorized - expired''),
      st_ex\<lparr>this_refreshToken := None, trace := [Fetch (build_request ''/me'' ''old'' opts_ex)]\<rparr>)"
proof -
  let ?E = "env_ex\<lparr>fetch := \<lambda>k q. Inr resp403\<rparr>"
  let ?s = "st_ex\<lparr>this_refreshToken := None\<rparr>"
  have r1: "resolveAccessToken ?E opts_ex st_ex = (Inr (Some ''old''), st_ex)"
    by (simp add: resolveAccessToken_def opts_ex_def st_ex_def)
  have r2: "resolveAccessToken env_ex opts_ex ?s = (Inr (Some ''old''), ?s)"
    by (simp add: resolveAccessToken_def opts_ex_def st_ex_def)
  have t: "truthy_str (Some ''old'')" by simp
  have c1: "requestWithRetry ?E ''/me'' (str_of (Some ''old''))
           (or_str (refreshToken opts_ex) (this_refreshToken st_ex)) opts_ex st_ex
        = (Inr resp403, st_ex\<lparr>trace := [Fetch (build_request ''/me'' ''old'' opts_ex)]\<rparr>)"
    by (simp add: requestWithRetry_def bind_io_def performRequest_def return_io_def
          st_ex_def resp403_def)
  have c2: "requestWithRetry env_ex ''/me'' (str_of (Some ''old''))
           (or_str (refreshToken opts_ex) (this_refreshToken ?s)) opts_ex ?s
        = (Inr resp401, ?s\<lparr>trace := [Fetch (build_request ''/me'' ''old'' opts_ex)]\<rparr>)"
    by (simp add: requestWithRetry_def bind_io_def performRequest_def return_io_def
          st_ex_def env_ex_def opts_ex_def or_str_def)
  have h1: "status resp403 = 403
      \<and> (str_includes (resp_text resp403) ''scope'' \<or> str_includes (resp_text resp403) ''permission'')"
    by (simp add: resp403_def startsWith_def)
  have h2: "\<not> (200 \<le> status resp401 \<and> status resp401 \<le> 299)
      \<and> \<not> (status resp401 = 403
            \<and> (str_includes (resp_text resp401) ''scope''
                 \<or> str_includes (resp_text resp401) ''permission''))"
    by (simp add: resp401_def)
  note a = response_classification [OF r1 t c1, THEN conjunct1, THEN mp, OF h1]
  note b = response_classification [OF r2 t c2, THEN conjunct2, THEN mp, OF h2]
  have n1: "string_of_nat 403 = ''403''" and n2: "string_of_nat 401 = ''401''"
    by code_simp+
  from a b show ?thesis
    by (simp add: resp403_def resp401_def n1 n2)
qed

subsection \<open>Normalisation of the body\<close>

lemma status_ok_not_403: "ok r \<Longrightarrow> status r \<noteq> 403"
  by (simp add: ok_def)

lemma handleResponse_ok_plain:
  assumes "ok r" and "includeHeaders options \<noteq> Some True"
  shows "handleResponse E options r = Inr (body_normalization (JSON_parse E) (resp_text r))"
  using assms status_ok_not_403 [OF assms(1)]
  by (simp add: handleResponse_def body_normalization_def Let_def)

lemma headers_get_lower:
  "toLowerCase name = toLowerCase name' \<Longrightarrow> headers_get hs name = headers_get hs name'"
  by (simp add: headers_get_def)

lemma toLowerCase_ETag: "toLowerCase ''ETag'' = ''etag''"
  by code_simp

lemma toLowerCase_etag: "toLowerCase ''etag'' = ''etag''"
  by code_simp

lemma headers_get_ETag: "headers_get hs ''etag'' = headers_get hs ''ETag''"
  by (rule headers_get_lower) (simp add: toLowerCase_ETag toLowerCase_etag)

lemma etag_value:
  "str_of (or_str (or_str (headers_get hs ''ETag'') (headers_get hs ''etag'')) (Some ''no-etag-found''))
     = (case headers_get hs ''ETag'' of
          None \<Rightarrow> ''no-etag-found''
        | Some v \<Rightarrow> if v = [] then ''no-etag-found'' else v)"
  by (cases "headers_get hs ''ETag''") (auto simp: or_str_def headers_get_ETag)

lemma handleResponse_ok_headers:
  assumes "ok r" and "includeHeaders options = Some True"
  shows "handleResponse E options r =
     Inr (case body_normalization (JSON_parse E) (resp_text r) of
            JObj kvs \<Rightarrow>
              JObj (obj_set kvs ''_etag''
                (JStr (case headers_get (resp_headers r) ''ETag'' of
                         None \<Rightarrow> ''no-etag-found''
                       | Some v \<Rightarrow> if v = [] then ''no-etag-found'' else v)))
          | v \<Rightarrow> v)"
proof -
  let ?N = "body_normalization (JSON_parse E) (resp_text r)"
  have "handleResponse E options r =
     (if truthy (Some ?N) \<and> typeof (Some ?N) = ''object'' \<and> \<not> isArray (Some ?N)
      then (case ?N of
              JObj kvs \<Rightarrow> Inr (JObj (obj_set kvs ''_etag''
                 (JStr (str_of (or_str (or_str (headers_get (resp_headers r) ''ETag'')
                     (headers_get (resp_headers r) ''etag'')) (Some ''no-etag-found''))))))
            | _ \<Rightarrow> Inr ?N)
      else Inr ?N)"
    unfolding handleResponse_def body_normalization_def Let_def
    using assms status_ok_not_403 [OF assms(1)]
    by (simp only: if_False if_True simp_thms)
  then show ?thesis
    by (cases ?N) (simp_all add: etag_value)
qed

text \<open>
  C6. For a final response with status in 200..299 the value \<open>makeRequest\<close> returns is the
  three-way normalisation of the body text: \<open>{message: "OK!"}\<close> for the empty text, the
  parsed value for a non-empty text that parses, and \<open>{message: "OK!", rawResponse: text}\<close>
  for a non-empty text that does not. With \<open>includeHeaders\<close> the same value is returned, an
  object with \<open>_etag\<close> set.
\<close>

theorem normalization_three_way:
  assumes "resolveAccessToken E options s = (Inr tok, s1)" and "truthy_str tok"
    and "requestWithRetry E endpoint (str_of tok)
           (or_str (refreshToken options) (this_refreshToken s)) options s1 = (Inr r, s2)"
    and "200 \<le> status r \<and> status r \<le> 299"
  shows "(includeHeaders options \<noteq> Some True \<longrightarrow>
            (resp_text r = [] \<longrightarrow>
               makeRequest E endpoint options s = (Inr (JObj [(''message'', JStr ''OK!'')]), s2))
          \<and> (\<forall>v. resp_text r \<noteq> [] \<and> JSON_parse E (resp_text r) = Some v \<longrightarrow>
               makeRequest E endpoint options s = (Inr v, s2))
          \<and> (resp_text r \<noteq> [] \<and> JSON_parse E (resp_text r) = None \<longrightarrow>
               makeRequest E endpoint options s =
                 (Inr (JObj [(''message'', JStr ''OK!''), (''rawResponse'', JStr (resp_text r))]), s2)))
       \<and> (includeHeaders options \<noteq> Some True \<longrightarrow>
            makeRequest E endpoint options s =
              (Inr (body_normalization (JSON_parse E) (resp_text r)), s2))
       \<and> (includeHeaders options = Some True \<longrightarrow>
            (\<exists>e. makeRequest E endpoint options s =
               (Inr (case body_normalization (JSON_parse E) (resp_text r) of
                       JObj kvs \<Rightarrow> JObj (obj_set kvs ''_etag'' (JStr e))
                     | v \<Rightarrow> v), s2)))"
proof -
  have m: "makeRequest E endpoint options s = (handleResponse E options r, s2)"
    using assms(3) by (simp add: makeRequest_unfold [OF assms(1,2)])
  have okr: "ok r" using assms(4) by (simp add: ok_def)
  have plain: "includeHeaders options \<noteq> Some True \<Longrightarrow>
      makeRequest E endpoint options s =
        (Inr (body_normalization (JSON_parse E) (resp_text r)), s2)"
    by (simp add: m handleResponse_ok_plain [OF okr])
  have hdr: "includeHeaders options = Some True \<Longrightarrow>
      \<exists>e. makeRequest E endpoint options s =
               (Inr (case body_normalization (JSON_parse E) (resp_text r) of
                       JObj kvs \<Rightarrow> JObj (obj_set kvs ''_etag'' (JStr e))
                     | v \<Rightarrow> v), s2)"
    unfolding m handleResponse_ok_headers [OF okr] by blast
  show ?thesis
    using plain hdr by (auto simp: body_normalization_def)
qed


lemmas run_defs =
  resolveAccessToken_def requestWithRetry_def performRequest_def refreshAccessToken_def
  bind_io_def return_io_def throw_io_def or_str_def

lemmas example_defs =
  env_ex_def opts_ex_def st_ex_def st_empty_def resp401_def resp200_def resp403_def
  resp_empty_etag_def resp_array_def resp_headers_body_def parse_ex_def

theorem normalization_three_way_witness:
  \<open>makeRequest env_ex ''/me'' opts_ex st_ex =
     (Inr (JObj [(''@odata.context'', JStr ''c''), (''id'', JNum ''7'')]),
      \<lparr>this_accessToken = Some ''new'', this_refreshToken = Some ''r0'',
       trace = [Fetch (build_request ''/me'' ''old'' opts_ex),
                Refresh ''r0'' ''084a3e9f-a9f4-43f7-89f9-d229cf97853e'' ''shh'' ''common'',
                Fetch (build_request ''/me'' ''new'' opts_ex)]\<rparr>)
   \<and> makeRequest (env_ex\<lparr>fetch := \<lambda>k q. Inr (resp200\<lparr>resp_text := []\<rparr>)\<rparr>) ''/me'' opts_ex st_ex =
     (Inr (JObj [(''message'', JStr ''OK!'')]),
      st_ex\<lparr>trace := [Fetch (build_request ''/me'' ''old'' opts_ex)]\<rparr>)
   \<and> makeRequest (env_ex\<lparr>fetch := \<lambda>k q. Inr (resp200\<lparr>resp_text := ''<html>''\<rparr>)\<rparr>) ''/me'' opts_ex st_ex =
     (Inr (JObj [(''message'', JStr ''OK!''), (''rawResponse'', JStr ''<html>'')]),
      st_ex\<lparr>trace := [Fetch (build_request ''/me'' ''old'' opts_ex)]\<rparr>)
   \<and> makeRequest (env_ex\<lparr>fetch := \<lambda>k q. Inr resp_array\<rparr>) ''/me''
              (opts_ex\<lparr>includeHeaders := Some True\<rparr>) st_ex =
     (Inr (JArr [JNum ''1'']),
      st_ex\<lparr>trace := [Fetch (build_request ''/me'' ''old'' (opts_ex\<lparr>includeHeaders := Some True\<rparr>))]\<rparr>)\<close>
proof -
  let ?s2 = "\<lparr>this_accessToken = Some ''new'', this_refreshToken = Some ''r0'',
       trace = [Fetch (build_request ''/me'' ''old'' opts_ex),
                Refresh ''r0'' ''084a3e9f-a9f4-43f7-89f9-d229cf97853e'' ''shh'' ''common'',
                Fetch (build_request ''/me'' ''new'' opts_ex)]\<rparr>"
  let ?s1 = "st_ex\<lparr>trace := [Fetch (build_request ''/me'' ''old'' opts_ex)]\<rparr>"
  let ?E1 = "env_ex\<lparr>fetch := \<lambda>k q. Inr (resp200\<lparr>resp_text := []\<rparr>)\<rparr>"
  let ?E2 = "env_ex\<lparr>fetch := \<lambda>k q. Inr (resp200\<lparr>resp_text := ''<html>''\<rparr>)\<rparr>"
  let ?E3 = "env_ex\<lparr>fetch := \<lambda>k q. Inr resp_array\<rparr>"
  let ?o3 = "opts_ex\<lparr>includeHeaders := Some True\<rparr>"
  have t: "truthy_str (Some ''old'')" by simp
  have r: "resolveAccessToken E opts_ex st_ex = (Inr (Some ''old''), st_ex)"
       "resolveAccessToken E ?o3 st_ex = (Inr (Some ''old''), st_ex)" for E
    by (simp_all add: resolveAccessToken_def opts_ex_def st_ex_def)
  have c0: "requestWithRetry env_ex ''/me'' (str_of (Some ''old''))
           (or_str (refreshToken opts_ex) (this_refreshToken st_ex)) opts_ex st_ex
        = (Inr resp200, ?s2)"
    by (simp add: run_defs env_ex_def st_ex_def opts_ex_def resp401_def)
  have c1: "requestWithRetry ?E1 ''/me'' (str_of (Some ''old''))
           (or_str (refreshToken opts_ex) (this_refreshToken st_ex)) opts_ex st_ex
        = (Inr (resp200\<lparr>resp_text := []\<rparr>), ?s1)"
    by (simp add: run_defs st_ex_def resp200_def)
  have c2: "requestWithRetry ?E2 ''/me'' (str_of (Some ''old''))
           (or_str (refreshToken opts_ex) (this_refreshToken st_ex)) opts_ex st_ex
        = (Inr (resp200\<lparr>resp_text := ''<html>''\<rparr>), ?s1)"
    by (simp add: run_defs st_ex_def resp200_def)
  have c3: "requestWithRetry ?E3 ''/me'' (str_of (Some ''old''))
           (or_str (refreshToken ?o3) (this_refreshToken st_ex)) ?o3 st_ex
        = (Inr resp_array, st_ex\<lparr>trace := [Fetch (build_request ''/me'' ''old'' ?o3)]\<rparr>)"
    by (simp add: run_defs st_ex_def resp_array_def)
  have k0: "200 \<le> status resp200 \<and> status resp200 \<le> 299"
    and k1: "200 \<le> status (resp200\<lparr>resp_text := []\<rparr>) \<and> status (resp200\<lparr>resp_text := []\<rparr>) \<le> 299"
    and k2: "200 \<le> status (resp200\<lparr>resp_text := ''<html>''\<rparr>)
             \<and> status (resp200\<lparr>resp_text := ''<html>''\<rparr>) \<le> 299"
    and k3: "200 \<le> status resp_array \<and> status resp_array \<le> 299"
    by (simp_all add: resp200_def resp_array_def)
  from normalization_three_way [OF r(1) t c0 k0]
  have a: "makeRequest env_ex ''/me'' opts_ex st_ex =
     (Inr (JObj [(''@odata.context'', JStr ''c''), (''id'', JNum ''7'')]), ?s2)"
    by (simp add: opts_ex_def env_ex_def resp200_def parse_ex_def)
  from normalization_three_way [OF r(1) t c1 k1]
  have b: "makeRequest ?E1 ''/me'' opts_ex st_ex = (Inr (JObj [(''message'', JStr ''OK!'')]), ?s1)"
    by (simp add: opts_ex_def)
  from normalization_three_way [OF r(1) t c2 k2]
  have c: "makeRequest ?E2 ''/me'' opts_ex st_ex =
     (Inr (JObj [(''message'', JStr ''OK!''), (''rawResponse'', JStr ''<html>'')]), ?s1)"
    by (simp add: opts_ex_def env_ex_def parse_ex_def)
  from normalization_three_way [OF r(2) t c3 k3]
  have d: "makeRequest ?E3 ''/me'' ?o3 st_ex =
     (Inr (JArr [JNum ''1'']), st_ex\<lparr>trace := [Fetch (build_request ''/me'' ''old'' ?o3)]\<rparr>)"
    by (simp add: env_ex_def resp_array_def parse_ex_def body_normalization_def)
  from a b c d show ?thesis by blast
qed

subsection \<open>The \<open>_etag\<close> field\<close>

lemma map_of_obj_set:
  "map_of (obj_set kvs k v) k' = (if k' = k then Some v else map_of kvs k')"
  by (induction kvs k v rule: obj_set.induct) auto

text \<open>
  C7, as the code has it. With \<open>includeHeaders\<close> and a final response in 200..299: when the
  normalised value is an object, the result is that object with \<open>_etag\<close> set and every other
  key as it was, and \<open>_etag\<close> is the value \<open>Headers.get\<close> returns for \<open>ETag\<close> (a lookup that
  ignores case) when that value is a non-empty string, and \<open>no-etag-found\<close> when the header
  is absent or its value is empty. When the normalised value is an array, a scalar or
  \<open>null\<close>, it is returned unchanged.
\<close>

theorem etag_attachment:
  assumes "resolveAccessToken E options s = (Inr tok, s1)" and "truthy_str tok"
    and "requestWithRetry E endpoint (str_of tok)
           (or_str (refreshToken options) (this_refreshToken s)) options s1 = (Inr r, s2)"
    and "200 \<le> status r \<and> status r \<le> 299"
    and "includeHeaders options = Some True"
  shows "(\<forall>kvs. body_normalization (JSON_parse E) (resp_text r) = JObj kvs \<longrightarrow>
            (\<exists>res. makeRequest E endpoint options s = (Inr (JObj res), s2)
               \<and> map_of res ''_etag'' =
                   Some (JStr (case headers_get (resp_headers r) ''ETag'' of
                                 None \<Rightarrow> ''no-etag-found''
                               | Some v \<Rightarrow> if v = [] then ''no-etag-found'' else v))
               \<and> (\<forall>k. k \<noteq> ''_etag'' \<longrightarrow> map_of res k = map_of kvs k)))
       \<and> ((\<forall>kvs. body_normalization (JSON_parse E) (resp_text r) \<noteq> JObj kvs) \<longrightarrow>
            makeRequest E endpoint options s =
              (Inr (body_normalization (JSON_parse E) (resp_text r)), s2))
       \<and> (\<forall>name. toLowerCase name = ''etag'' \<longrightarrow>
            headers_get (resp_headers r) name = headers_get (resp_headers r) ''ETag'')"
proof -
  let ?N = "body_normalization (JSON_parse E) (resp_text r)"
  let ?e = "case headers_get (resp_headers r) ''ETag'' of
              None \<Rightarrow> ''no-etag-found''
            | Some v \<Rightarrow> if v = [] then ''no-etag-found'' else v"
  have okr: "ok r" using assms(4) by (simp add: ok_def)
  have m: "makeRequest E endpoint options s =
             (Inr (case ?N of JObj kvs \<Rightarrow> JObj (obj_set kvs ''_etag'' (JStr ?e)) | v \<Rightarrow> v), s2)"
    using assms(3)
    by (simp add: makeRequest_unfold [OF assms(1,2)] handleResponse_ok_headers [OF okr assms(5)])
  have obj: "\<exists>res. makeRequest E endpoint options s = (Inr (JObj res), s2)
               \<and> map_of res ''_etag'' = Some (JStr ?e)
               \<and> (\<forall>k. k \<noteq> ''_etag'' \<longrightarrow> map_of res k = map_of kvs k)"
    if "?N = JObj kvs" for kvs
  proof (intro exI conjI)
    show "makeRequest E endpoint options s = (Inr (JObj (obj_set kvs ''_etag'' (JStr ?e))), s2)"
      using that by (simp add: m)
    show "map_of (obj_set kvs ''_etag'' (JStr ?e)) ''_etag'' = Some (JStr ?e)"
      by (simp add: map_of_obj_set)
    show "\<forall>k. k \<noteq> ''_etag'' \<longrightarrow> map_of (obj_set kvs ''_etag'' (JStr ?e)) k = map_of kvs k"
      by (simp add: map_of_obj_set)
  qed
  have other: "makeRequest E endpoint options s = (Inr ?N, s2)" if "\<forall>kvs. ?N \<noteq> JObj kvs"
    using that by (cases ?N) (simp_all add: m)
  have ci: "headers_get (resp_headers r) name = headers_get (resp_headers r) ''ETag''"
    if "toLowerCase name = ''etag''" for name
    using that by (intro headers_get_lower) (simp add: toLowerCase_ETag)
  from obj other ci show ?thesis by blast
qed

theorem etag_attachment_witness:
  "(\<exists>res. makeRequest env_ex ''/me'' (opts_ex\<lparr>includeHeaders := Some True\<rparr>) st_ex =
     (Inr (JObj res),
      \<lparr>this_accessToken = Some ''new'', this_refreshToken = Some ''r0'',
       trace = [Fetch (build_request ''/me'' ''old'' (opts_ex\<lparr>includeHeaders := Some True\<rparr>)),
                Refresh ''r0'' ''084a3e9f-a9f4-43f7-89f9-d229cf97853e'' ''shh'' ''common'',
                Fetch (build_request ''/me'' ''new'' (opts_ex\<lparr>includeHeaders := Some True\<rparr>))]\<rparr>)
       \<and> map_of res ''_etag'' = Some (JStr ''W/1'')
       \<and> map_of res ''id'' = Some (JNum ''7''))
   \<and> makeRequest (env_ex\<lparr>fetch := \<lambda>k q. Inr resp_array\<rparr>) ''/me''
              (opts_ex\<lparr>includeHeaders := Some True\<rparr>) st_ex =
     (Inr (JArr [JNum ''1'']),
      st_ex\<lparr>trace := [Fetch (build_request ''/me'' ''old'' (opts_ex\<lparr>includeHeaders := Some True\<rparr>))]\<rparr>)
   \<and> headers_get (resp_headers resp200) ''Etag'' = headers_get (resp_headers resp200) ''ETag''"
proof -
  let ?o = "opts_ex\<lparr>includeHeaders := Some True\<rparr>"
  let ?s2 = "\<lparr>this_accessToken = Some ''new'', this_refreshToken = Some ''r0'',
       trace = [Fetch (build_request ''/me'' ''old'' ?o),
                Refresh ''r0'' ''084a3e9f-a9f4-43f7-89f9-d229cf97853e'' ''shh'' ''common'',
                Fetch (build_request ''/me'' ''new'' ?o)]\<rparr>"
  let ?E3 = "env_ex\<lparr>fetch := \<lambda>k q. Inr resp_array\<rparr>"
  have t: "truthy_str (Some ''old'')" by simp
  have r: "resolveAccessToken E ?o st_ex = (Inr (Some ''old''), st_ex)" for E
    by (simp add: resolveAccessToken_def opts_ex_def st_ex_def)
  have c0: "requestWithRetry env_ex ''/me'' (str_of (Some ''old''))
           (or_str (refreshToken ?o) (this_refreshToken st_ex)) ?o st_ex = (Inr resp200, ?s2)"
    by (simp add: run_defs env_ex_def st_ex_def opts_ex_def resp401_def)
  have c3: "requestWithRetry ?E3 ''/me'' (str_of (Some ''old''))
           (or_str (refreshToken ?o) (this_refreshToken st_ex)) ?o st_ex
        = (Inr resp_array, st_ex\<lparr>trace := [Fetch (build_request ''/me'' ''old'' ?o)]\<rparr>)"
    by (simp add: run_defs st_ex_def resp_array_def)
  have k0: "200 \<le> status resp200 \<and> status resp200 \<le> 299"
    and k3: "200 \<le> status resp_array \<and> status resp_array \<le> 299"
    by (simp_all add: resp200_def resp_array_def)
  have i: "includeHeaders ?o = Some True" by simp
  have n0: "body_normalization (JSON_parse env_ex) (resp_text resp200)
              = JObj [(''@odata.context'', JStr ''c''), (''id'', JNum ''7'')]"
    by (simp add: body_normalization_def env_ex_def resp200_def parse_ex_def)
  have n3: "\<forall>kvs. body_normalization (JSON_parse ?E3) (resp_text resp_array) \<noteq> JObj kvs"
    by (simp add: body_normalization_def env_ex_def resp_array_def parse_ex_def)
  have low: "toLowerCase ''Etag'' = ''etag''" by code_simp
  have g: "headers_get (resp_headers resp200) ''ETag'' = Some ''W/1''"
    by (simp add: headers_get_def resp200_def toLowerCase_ETag toLowerCase_etag)
  note w = etag_attachment [OF r t c0 k0 i]
  from w [THEN conjunct1, rule_format, OF n0] obtain res where
    res: "makeRequest env_ex ''/me'' ?o st_ex = (Inr (JObj res), ?s2)"
      "map_of res ''_etag'' = Some (JStr ''W/1'')"
      "\<forall>k. k \<noteq> ''_etag'' \<longrightarrow>
         map_of res k = map_of [(''@odata.context'', JStr ''c''), (''id'', JNum ''7'')] k"
    by (auto simp: g)
  from res(3) have "map_of res ''id'' = Some (JNum ''7'')" by simp
  with res(1,2) have a: "\<exists>res. makeRequest env_ex ''/me'' ?o st_ex = (Inr (JObj res), ?s2)
       \<and> map_of res ''_etag'' = Some (JStr ''W/1'') \<and> map_of res ''id'' = Some (JNum ''7'')"
    by blast
  note b = etag_attachment [OF r t c3 k3 i, THEN conjunct2, THEN conjunct1, THEN mp, OF n3]
  note c = w [THEN conjunct2, THEN conjunct2, rule_format, OF low]
  from a b c show ?thesis
    by (simp add: env_ex_def resp_array_def parse_ex_def body_normalization_def)
qed

text \<open>
  C7 as stated fails when the \<open>ETag\<close> header is present with an empty value: the header is
  not absent, yet \<open>_etag\<close> is \<open>no-etag-found\<close> and not the header's value.
\<close>

theorem etag_attachment_counterexample:
  "headers_get (resp_headers resp_empty_etag) ''ETag'' = Some []
   \<and> fst (makeRequest (env_ex\<lparr>fetch := \<lambda>k q. Inr resp_empty_etag\<rparr>) ''/me''
            (opts_ex\<lparr>includeHeaders := Some True\<rparr>) st_ex)
       = Inr (JObj [(''_etag'', JStr ''no-etag-found'')])
   \<and> JStr ''no-etag-found'' \<noteq> JStr []"
  by (simp add: makeRequest_def run_defs handleResponse_def ok_def headers_get_def
        toLowerCase_ETag toLowerCase_etag example_defs)

subsection \<open>Token resolution\<close>

lemma requestWithRetry_trace:
  "\<exists>rest. trace (snd (requestWithRetry E endpoint a rt options s))
             = trace s @ Fetch (build_request endpoint a options) # rest
          \<and> GetToken \<notin> set rest"
  by (auto simp: requestWithRetry_def performRequest_def refreshAccessToken_def bind_io_def
        return_io_def throw_io_def Let_def split: sum.splits prod.splits if_splits)

lemma makeRequest_trace:
  assumes "resolveAccessToken E options s = (Inr tok, s1)" and "truthy_str tok"
  shows "\<exists>rest. trace (snd (makeRequest E endpoint options s))
             = trace s1 @ Fetch (build_request endpoint (str_of tok) options) # rest
          \<and> GetToken \<notin> set rest"
proof -
  let ?rt = "or_str (refreshToken options) (this_refreshToken s)"
  have "trace (snd (makeRequest E endpoint options s))
          = trace (snd (requestWithRetry E endpoint (str_of tok) ?rt options s1))"
    by (simp add: makeRequest_unfold [OF assms] split: prod.splits sum.splits)
  with requestWithRetry_trace [of E endpoint "str_of tok" ?rt options s1]
  show ?thesis by simp
qed

lemma map_of_spread_notin:
  "k \<notin> fst ` set extra \<Longrightarrow> map_of (spread base extra) k = map_of base k"
  unfolding spread_def
  by (induction extra arbitrary: base) (auto simp: map_of_obj_set)

text \<open>
  C4, as the code has it. The token of the first transport call is the per-call override
  when that is a non-empty string, else the stored token when that is a non-empty string,
  else what the credential source returns; the credential source is consulted exactly when
  override and stored token are both absent or empty. When the credential source returns
  nothing either, the call throws the no-token error and has made no transport or refresher
  call. The token travels as \<open>Authorization: Bearer token\<close> unless the caller's own
  headers set \<open>Authorization\<close>.
\<close>

theorem token_resolution_order:
  "(truthy_str (accessToken options) \<longrightarrow>
      GetToken \<notin> set (new_calls s (snd (makeRequest E endpoint options s)))
      \<and> take 1 (new_calls s (snd (makeRequest E endpoint options s)))
          = [Fetch (build_request endpoint (str_of (accessToken options)) options)])
   \<and> (\<not> truthy_str (accessToken options) \<and> truthy_str (this_accessToken s) \<longrightarrow>
      GetToken \<notin> set (new_calls s (snd (makeRequest E endpoint options s)))
      \<and> take 1 (new_calls s (snd (makeRequest E endpoint options s)))
          = [Fetch (build_request endpoint (str_of (this_accessToken s)) options)])
   \<and> (\<forall>p. \<not> truthy_str (accessToken options) \<and> \<not> truthy_str (this_accessToken s)
          \<and> getToken E = Inr p \<and> truthy_str p \<longrightarrow>
      take 2 (new_calls s (snd (makeRequest E endpoint options s)))
          = [GetToken, Fetch (build_request endpoint (str_of p) options)])
   \<and> (\<forall>p. \<not> truthy_str (accessToken options) \<and> \<not> truthy_str (this_accessToken s)
          \<and> getToken E = Inr p \<and> \<not> truthy_str p \<longrightarrow>
      makeRequest E endpoint options s =
        (Inl (Error ''No access token available''), s\<lparr>trace := trace s @ [GetToken]\<rparr>))
   \<and> (\<forall>e. \<not> truthy_str (accessToken options) \<and> \<not> truthy_str (this_accessToken s)
          \<and> getToken E = Inl e \<longrightarrow>
      makeRequest E endpoint options s = (Inl e, s\<lparr>trace := trace s @ [GetToken]\<rparr>))
   \<and> (\<forall>a. (case headers options of None \<Rightarrow> True | Some hs \<Rightarrow> ''Authorization'' \<notin> fst ` set hs)
          \<longrightarrow> map_of (req_headers (build_request endpoint a options)) ''Authorization''
                = Some (''Bearer '' @ a))"
proof (intro conjI impI allI)
  assume a: "truthy_str (accessToken options)"
  then have r: "resolveAccessToken E options s = (Inr (accessToken options), s)"
    by (simp add: resolveAccessToken_def)
  from makeRequest_trace [OF r a, of endpoint]
  show "GetToken \<notin> set (new_calls s (snd (makeRequest E endpoint options s)))"
    and "take 1 (new_calls s (snd (makeRequest E endpoint options s)))
          = [Fetch (build_request endpoint (str_of (accessToken options)) options)]"
    by (auto simp: new_calls_def)
next
  assume a: "\<not> truthy_str (accessToken options) \<and> truthy_str (this_accessToken s)"
  then have r: "resolveAccessToken E options s = (Inr (this_accessToken s), s)"
    by (simp add: resolveAccessToken_def)
  from a have t: "truthy_str (this_accessToken s)" by simp
  from makeRequest_trace [OF r t, of endpoint]
  show "GetToken \<notin> set (new_calls s (snd (makeRequest E endpoint options s)))"
    and "take 1 (new_calls s (snd (makeRequest E endpoint options s)))
          = [Fetch (build_request endpoint (str_of (this_accessToken s)) options)]"
    by (auto simp: new_calls_def)
next
  fix p
  assume a: "\<not> truthy_str (accessToken options) \<and> \<not> truthy_str (this_accessToken s)
          \<and> getToken E = Inr p \<and> truthy_str p"
  then have r: "resolveAccessToken E options s = (Inr p, s\<lparr>trace := trace s @ [GetToken]\<rparr>)"
    by (simp add: resolveAccessToken_def)
  from a have t: "truthy_str p" by simp
  from makeRequest_trace [OF r t, of endpoint]
  show "take 2 (new_calls s (snd (makeRequest E endpoint options s)))
          = [GetToken, Fetch (build_request endpoint (str_of p) options)]"
    by (auto simp: new_calls_def)
next
  fix p
  assume a: "\<not> truthy_str (accessToken options) \<and> \<not> truthy_str (this_accessToken s)
          \<and> getToken E = Inr p \<and> \<not> truthy_str p"
  then have r: "resolveAccessToken E options s = (Inr p, s\<lparr>trace := trace s @ [GetToken]\<rparr>)"
    by (simp add: resolveAccessToken_def)
  from a have t: "\<not> truthy_str p" by simp
  show "makeRequest E endpoint options s =
        (Inl (Error ''No access token available''), s\<lparr>trace := trace s @ [GetToken]\<rparr>)"
    by (rule makeRequest_no_token [OF r t])
next
  fix e
  assume a: "\<not> truthy_str (accessToken options) \<and> \<not> truthy_str (this_accessToken s)
          \<and> getToken E = Inl e"
  then have r: "resolveAccessToken E options s = (Inl e, s\<lparr>trace := trace s @ [GetToken]\<rparr>)"
    by (simp add: resolveAccessToken_def)
  show "makeRequest E endpoint options s = (Inl e, s\<lparr>trace := trace s @ [GetToken]\<rparr>)"
    by (rule makeRequest_resolve_throws [OF r])
next
  fix a
  assume "case headers options of None \<Rightarrow> True | Some hs \<Rightarrow> ''Authorization'' \<notin> fst ` set hs"
  then have "''Authorization'' \<notin> fst ` set (case headers options of None \<Rightarrow> [] | Some hs \<Rightarrow> hs)"
    by (cases "headers options") simp_all
  then show "map_of (req_headers (build_request endpoint a options)) ''Authorization''
                = Some (''Bearer '' @ a)"
    by (simp add: build_request_def map_of_spread_notin)
qed


theorem token_resolution_order_witness:
  "take 1 (new_calls st_ex (snd (makeRequest env_ex ''/me'' (opts_ex\<lparr>accessToken := Some ''ovr''\<rparr>) st_ex)))
      = [Fetch (build_request ''/me'' ''ovr'' (opts_ex\<lparr>accessToken := Some ''ovr''\<rparr>))]
   \<and> GetToken \<notin> set (new_calls st_ex (snd (makeRequest env_ex ''/me'' opts_ex st_ex)))
   \<and> take 1 (new_calls st_ex (snd (makeRequest env_ex ''/me'' opts_ex st_ex)))
      = [Fetch (build_request ''/me'' ''old'' opts_ex)]
   \<and> take 2 (new_calls st_empty (snd (makeRequest env_ex ''/me'' opts_ex st_empty)))
      = [GetToken, Fetch (build_request ''/me'' ''pulled'' opts_ex)]
   \<and> makeRequest (env_ex\<lparr>getToken := Inr None\<rparr>) ''/me'' opts_ex st_empty
      = (Inl (Error ''No access token available''), st_empty\<lparr>trace := [GetToken]\<rparr>)
   \<and> makeRequest (env_ex\<lparr>getToken := Inl (Error ''offline'')\<rparr>) ''/me'' opts_ex st_empty
      = (Inl (Error ''offline''), st_empty\<lparr>trace := [GetToken]\<rparr>)
   \<and> map_of (req_headers (build_request ''/me'' ''old'' opts_ex)) ''Authorization''
      = Some ''Bearer old''"
proof -
  let ?o = "opts_ex\<lparr>accessToken := Some ''ovr''\<rparr>"
  have h1: "truthy_str (accessToken ?o)" by simp
  have h2: "\<not> truthy_str (accessToken opts_ex) \<and> truthy_str (this_accessToken st_ex)"
    by (simp add: opts_ex_def st_ex_def)
  have h3: "\<not> truthy_str (accessToken opts_ex) \<and> \<not> truthy_str (this_accessToken st_empty)
          \<and> getToken env_ex = Inr (Some ''pulled'') \<and> truthy_str (Some ''pulled'')"
    by (simp add: opts_ex_def st_empty_def env_ex_def)
  have h4: "\<not> truthy_str (accessToken opts_ex) \<and> \<not> truthy_str (this_accessToken st_empty)
          \<and> getToken (env_ex\<lparr>getToken := Inr None\<rparr>) = Inr None \<and> \<not> truthy_str None"
    by (simp add: opts_ex_def st_empty_def)
  have h5: "\<not> truthy_str (accessToken opts_ex) \<and> \<not> truthy_str (this_accessToken st_empty)
          \<and> getToken (env_ex\<lparr>getToken := Inl (Error ''offline'')\<rparr>) = Inl (Error ''offline'')"
    by (simp add: opts_ex_def st_empty_def)
  have h6: "case headers opts_ex of None \<Rightarrow> True | Some hs \<Rightarrow> ''Authorization'' \<notin> fst ` set hs"
    by (simp add: opts_ex_def)
  note T = token_resolution_order
  from T [of ?o st_ex env_ex "''/me''"] h1
  have a: "take 1 (new_calls st_ex (snd (makeRequest env_ex ''/me'' ?o st_ex)))
      = [Fetch (build_request ''/me'' ''ovr'' ?o)]"
    by simp
  from T [of opts_ex st_ex env_ex "''/me''"] h2 h6
  have b: "GetToken \<notin> set (new_calls st_ex (snd (makeRequest env_ex ''/me'' opts_ex st_ex)))"
    and c: "take 1 (new_calls st_ex (snd (makeRequest env_ex ''/me'' opts_ex st_ex)))
      = [Fetch (build_request ''/me'' (str_of (this_accessToken st_ex)) opts_ex)]"
    and g: "map_of (req_headers (build_request ''/me'' ''old'' opts_ex)) ''Authorization''
      = Some (''Bearer '' @ ''old'')"
    by blast+
  from T [of opts_ex st_empty env_ex "''/me''"] h3
  have d: "take 2 (new_calls st_empty (snd (makeRequest env_ex ''/me'' opts_ex st_empty)))
      = [GetToken, Fetch (build_request ''/me'' (str_of (Some ''pulled'')) opts_ex)]"
    by blast
  from T [of opts_ex st_empty "env_ex\<lparr>getToken := Inr None\<rparr>" "''/me''"] h4
  have e: "makeRequest (env_ex\<lparr>getToken := Inr None\<rparr>) ''/me'' opts_ex st_empty
      = (Inl (Error ''No access token available''), st_empty\<lparr>trace := trace st_empty @ [GetToken]\<rparr>)"
    by blast
  from T [of opts_ex st_empty "env_ex\<lparr>getToken := Inl (Error ''offline'')\<rparr>" "''/me''"] h5
  have f: "makeRequest (env_ex\<lparr>getToken := Inl (Error ''offline'')\<rparr>) ''/me'' opts_ex st_empty
      = (Inl (Error ''offline''), st_empty\<lparr>trace := trace st_empty @ [GetToken]\<rparr>)"
    by blast
  from a b c d e f g show ?thesis
    by (simp add: st_ex_def st_empty_def)
qed

text \<open>
  C4 as stated fails for an override that is present and empty: the credential source is
  consulted although the override is not absent.
\<close>

theorem token_resolution_order_counterexample:
  "accessToken (opts_ex\<lparr>accessToken := Some []\<rparr>) \<noteq> None
   \<and> GetToken \<in> set (new_calls st_empty
        (snd (makeRequest env_ex ''/me'' (opts_ex\<lparr>accessToken := Some []\<rparr>) st_empty)))"
  by (simp add: makeRequest_def run_defs new_calls_def handleResponse_def ok_def example_defs
        Let_def)

subsection \<open>Refresh and retry\<close>

lemma refreshAccessToken_refresher_fails:
  assumes "truthy_str (MS365_MCP_CLIENT_SECRET E)" and "refresh_outcome E rt = Inl e"
  shows "refreshAccessToken E rt s = (Inl e, s\<lparr>trace := trace s @ [refresh_call E rt]\<rparr>)"
  using assms by (simp add: refreshAccessToken_def refresh_outcome_def refresh_call_def Let_def)

lemma refreshAccessToken_refresher_succeeds:
  assumes "truthy_str (MS365_MCP_CLIENT_SECRET E)" and "refresh_outcome E rt = Inr tr"
  shows "refreshAccessToken E rt s =
     (Inr (), s\<lparr>trace := trace s @ [refresh_call E rt],
               this_accessToken := Some (access_token tr),
               this_refreshToken := (if truthy_str (refresh_token tr) then refresh_token tr
                                     else this_refreshToken s)\<rparr>)"
  using assms by (simp add: refreshAccessToken_def refresh_outcome_def refresh_call_def Let_def)

lemma handleResponse_401:
  assumes "status r = 401"
  shows "handleResponse E options r =
           Inl (Error (''Microsoft Graph API error: 401 '' @ statusText r @ '' - '' @ resp_text r))"
proof -
  have "string_of_nat 401 = ''401''" by code_simp
  with assms show ?thesis
    by (simp add: handleResponse_def ok_def api_error_def)
qed

text \<open>The five ways a call that has resolved a token can go, each with its result and its calls.\<close>

lemma makeRequest_transport_failure:
  assumes "resolveAccessToken E options s = (Inr (Some a), s1)" and "a \<noteq> []"
    and "fetch E (length (filter is_Fetch (trace s))) (build_request endpoint a options) = Inl e"
  shows "makeRequest E endpoint options s =
           (Inl e, s1\<lparr>trace := trace s1 @ [Fetch (build_request endpoint a options)]\<rparr>)"
proof -
  have t: "truthy_str (Some a)" using assms(2) by simp
  have "fetch E (length (filter is_Fetch (trace s1))) (build_request endpoint a options) = Inl e"
    using assms(3) resolveAccessToken_frame [OF assms(1)] by simp
  from requestWithRetry_transport_failure [OF this]
  show ?thesis by (simp add: makeRequest_unfold [OF assms(1) t])
qed

lemma makeRequest_single_response:
  assumes "resolveAccessToken E options s = (Inr (Some a), s1)" and "a \<noteq> []"
    and "fetch E (length (filter is_Fetch (trace s))) (build_request endpoint a options) = Inr r"
    and "\<not> (status r = 401 \<and> truthy_str (or_str (refreshToken options) (this_refreshToken s)))"
  shows "makeRequest E endpoint options s =
           (handleResponse E options r,
            s1\<lparr>trace := trace s1 @ [Fetch (build_request endpoint a options)]\<rparr>)"
proof -
  have t: "truthy_str (Some a)" using assms(2) by simp
  have "fetch E (length (filter is_Fetch (trace s1))) (build_request endpoint a options) = Inr r"
    using assms(3) resolveAccessToken_frame [OF assms(1)] by simp
  from requestWithRetry_no_retry [OF this assms(4)]
  show ?thesis by (simp add: makeRequest_unfold [OF assms(1) t])
qed

lemma makeRequest_refresh_failure:
  assumes "resolveAccessToken E options s = (Inr (Some a), s1)" and "a \<noteq> []"
    and "fetch E (length (filter is_Fetch (trace s))) (build_request endpoint a options) = Inr r"
    and "status r = 401"
    and "truthy_str (or_str (refreshToken options) (this_refreshToken s))"
    and "refreshAccessToken E (str_of (or_str (refreshToken options) (this_refreshToken s)))
           (s1\<lparr>trace := trace s1 @ [Fetch (build_request endpoint a options)]\<rparr>) = (Inl e, s2)"
  shows "makeRequest E endpoint options s = (Inl e, s2)"
proof -
  have t: "truthy_str (Some a)" using assms(2) by simp
  have "fetch E (length (filter is_Fetch (trace s1))) (build_request endpoint a options) = Inr r"
    using assms(3) resolveAccessToken_frame [OF assms(1)] by simp
  from requestWithRetry_refresh_fails [OF this assms(4,5,6)]
  show ?thesis by (simp add: makeRequest_unfold [OF assms(1) t])
qed

lemma makeRequest_retried:
  assumes "resolveAccessToken E options s = (Inr (Some a), s1)" and "a \<noteq> []"
    and "fetch E (length (filter is_Fetch (trace s))) (build_request endpoint a options) = Inr r"
    and "status r = 401"
    and "truthy_str (or_str (refreshToken options) (this_refreshToken s))"
    and "truthy_str (MS365_MCP_CLIENT_SECRET E)"
    and "refresh_outcome E (str_of (or_str (refreshToken options) (this_refreshToken s))) = Inr tr"
  shows "makeRequest E endpoint options s =
     (case fetch E (Suc (length (filter is_Fetch (trace s))))
             (build_request endpoint (if access_token tr = [] then a else access_token tr) options) of
        Inl e \<Rightarrow> Inl e
      | Inr r2 \<Rightarrow> handleResponse E options r2,
      s1\<lparr>trace := trace s1 @
            [Fetch (build_request endpoint a options),
             refresh_call E (str_of (or_str (refreshToken options) (this_refreshToken s))),
             Fetch (build_request endpoint (if access_token tr = [] then a else access_token tr)
                      options)],
         this_accessToken := Some (access_token tr),
         this_refreshToken := (if truthy_str (refresh_token tr) then refresh_token tr
                               else this_refreshToken s)\<rparr>)"
proof -
  let ?rt = "or_str (refreshToken options) (this_refreshToken s)"
  let ?req = "build_request endpoint a options"
  have t: "truthy_str (Some a)" using assms(2) by simp
  note fr = resolveAccessToken_frame [OF assms(1)]
  have f: "fetch E (length (filter is_Fetch (trace s1))) ?req = Inr r"
    using assms(3) fr by simp
  note rf = refreshAccessToken_refresher_succeeds [OF assms(6,7),
              of "s1\<lparr>trace := trace s1 @ [Fetch ?req]\<rparr>"]
  have "requestWithRetry E endpoint a ?rt options s1 =
          performRequest E endpoint (if access_token tr = [] then a else access_token tr) options
            (s1\<lparr>trace := trace s1 @ [Fetch ?req, refresh_call E (str_of ?rt)],
                this_accessToken := Some (access_token tr),
                this_refreshToken := (if truthy_str (refresh_token tr) then refresh_token tr
                                      else this_refreshToken s)\<rparr>)"
    using requestWithRetry_retry [OF f assms(4,5,2) rf] fr
    by (simp add: or_str_def)
  then show ?thesis
    using fr
    by (simp add: makeRequest_unfold [OF assms(1) t] performRequest_def refresh_call_def Let_def
          split: sum.splits)
qed

lemma is_Refresh_refresh_call [simp]: "is_Refresh (refresh_call E rt)"
  by (simp add: refresh_call_def)

lemma is_Fetch_refresh_call [simp]: "\<not> is_Fetch (refresh_call E rt)"
  by (simp add: refresh_call_def)

lemma new_calls_append [simp]: "new_calls s (s'\<lparr>trace := trace s @ evs\<rparr>) = evs"
  by (simp add: new_calls_def)

lemma new_calls_append_more [simp]:
  "new_calls s (s\<lparr>trace := trace s @ evs, this_accessToken := x, this_refreshToken := y\<rparr>) = evs"
  by (simp add: new_calls_def)

text \<open>
  C2, as the code has it. Take a call that has resolved the token \<open>a\<close>; \<open>first\<close> is the
  outcome of its first transport call and \<open>rt\<close> the refresh token (override, else stored).
  The call makes one or two transport calls and at most one refresher call. The refresher is
  called exactly when the first response is a 401, \<open>rt\<close> is a non-empty string and a client
  secret is configured; there are two transport calls exactly when, moreover, the refresher
  succeeds, and then the calls are request, refresh, request again, and the result is that
  of the retried response (the generic API error if that is a 401 again). The retried
  request carries the access token the refresher returned, or the token of the first
  request when the refresher returned an empty access token
  (\<open>this.accessToken || accessToken\<close>, line 64). A refresh that fails (no secret, or the refresher rejects) ends the call with that
  error after the one transport call. Every other first response decides the result alone;
  a 401 without refresh token gives the error envelope of the API error. A transport
  failure is the result, without retry.
\<close>

theorem refresh_and_retry:
  fixes E :: env and endpoint :: string and options :: GraphRequestOptions
    and s s1 :: state and a :: string
  assumes res: "resolveAccessToken E options s = (Inr (Some a), s1)" and a: "a \<noteq> []"
  defines "rt \<equiv> or_str (refreshToken options) (this_refreshToken s)"
    and "req \<equiv> build_request endpoint a options"
    and "first \<equiv> fetch E (length (filter is_Fetch (trace s))) (build_request endpoint a options)"
    and "out \<equiv> makeRequest E endpoint options s"
    and "calls \<equiv> new_calls s1 (snd (makeRequest E endpoint options s))"
  shows "length (filter is_Fetch calls) \<in> {1, 2} \<and> length (filter is_Refresh calls) \<le> 1
     \<and> (length (filter is_Refresh calls) = 1 \<longleftrightarrow>
          (\<exists>r. first = Inr r \<and> status r = 401) \<and> truthy_str rt
          \<and> truthy_str (MS365_MCP_CLIENT_SECRET E))
     \<and> (length (filter is_Fetch calls) = 2 \<longleftrightarrow>
          (\<exists>r. first = Inr r \<and> status r = 401) \<and> truthy_str rt
          \<and> truthy_str (MS365_MCP_CLIENT_SECRET E)
          \<and> (\<exists>tr. refresh_outcome E (str_of rt) = Inr tr))
     \<and> (\<forall>r tr. first = Inr r \<and> status r = 401 \<and> truthy_str rt
            \<and> truthy_str (MS365_MCP_CLIENT_SECRET E) \<and> refresh_outcome E (str_of rt) = Inr tr \<longrightarrow>
          calls = [Fetch req, refresh_call E (str_of rt),
                   Fetch (build_request endpoint
                            (if access_token tr = [] then a else access_token tr) options)]
          \<and> fst out =
              (case fetch E (Suc (length (filter is_Fetch (trace s))))
                      (build_request endpoint
                         (if access_token tr = [] then a else access_token tr) options) of
                 Inl e \<Rightarrow> Inl e
               | Inr r2 \<Rightarrow> handleResponse E options r2))
     \<and> (\<forall>r2. status r2 = 401 \<longrightarrow>
          handleResponse E options r2 =
            Inl (Error (''Microsoft Graph API error: 401 '' @ statusText r2 @ '' - '' @ resp_text r2)))
     \<and> (\<forall>r. first = Inr r \<and> status r = 401 \<and> truthy_str rt
            \<and> \<not> truthy_str (MS365_MCP_CLIENT_SECRET E) \<longrightarrow>
          calls = [Fetch req]
          \<and> fst out = Inl (Error ''MS365_MCP_CLIENT_SECRET not configured''))
     \<and> (\<forall>r e. first = Inr r \<and> status r = 401 \<and> truthy_str rt
            \<and> truthy_str (MS365_MCP_CLIENT_SECRET E) \<and> refresh_outcome E (str_of rt) = Inl e \<longrightarrow>
          calls = [Fetch req, refresh_call E (str_of rt)] \<and> fst out = Inl e)
     \<and> (\<forall>r. first = Inr r \<and> \<not> (status r = 401 \<and> truthy_str rt) \<longrightarrow>
          calls = [Fetch req] \<and> fst out = handleResponse E options r)
     \<and> (\<forall>r. first = Inr r \<and> status r = 401 \<and> \<not> truthy_str rt \<longrightarrow>
          fst (graphRequest E endpoint options s) =
            \<lparr>content = [text_item (JSON_stringify 0 (Some (JObj [(''error'',
                 JStr (''Microsoft Graph API error: 401 '' @ statusText r @ '' - '' @ resp_text r))])))],
             meta = None, isError = Some True\<rparr>)
     \<and> (\<forall>e. first = Inl e \<longrightarrow> calls = [Fetch req] \<and> fst out = Inl e)"
proof -
  note defs = rt_def req_def first_def out_def calls_def
  have h401: "\<forall>r2. status r2 = 401 \<longrightarrow>
          handleResponse E options r2 =
            Inl (Error (''Microsoft Graph API error: 401 '' @ statusText r2 @ '' - '' @ resp_text r2))"
    by (simp add: handleResponse_401)
  consider
      (failure) e where "first = Inl e"
    | (single) r where "first = Inr r" "\<not> (status r = 401 \<and> truthy_str rt)"
    | (nosecret) r where "first = Inr r" "status r = 401" "truthy_str rt"
        "\<not> truthy_str (MS365_MCP_CLIENT_SECRET E)"
    | (refused) r e where "first = Inr r" "status r = 401" "truthy_str rt"
        "truthy_str (MS365_MCP_CLIENT_SECRET E)" "refresh_outcome E (str_of rt) = Inl e"
    | (retried) r tr where "first = Inr r" "status r = 401" "truthy_str rt"
        "truthy_str (MS365_MCP_CLIENT_SECRET E)" "refresh_outcome E (str_of rt) = Inr tr"
    by (cases first; cases "refresh_outcome E (str_of rt)") auto
  then show ?thesis
  proof cases
    case failure
    from makeRequest_transport_failure [OF res a failure [unfolded first_def]]
    have m: "out = (Inl e, s1\<lparr>trace := trace s1 @ [Fetch req]\<rparr>)"
      by (simp add: defs)
    have c: "calls = [Fetch req]" using m by (simp add: calls_def out_def [symmetric])
    show ?thesis using failure c m h401 by simp
  next
    case single
    from makeRequest_single_response [OF res a single(1) [unfolded first_def] single(2) [unfolded rt_def]]
    have m: "out = (handleResponse E options r, s1\<lparr>trace := trace s1 @ [Fetch req]\<rparr>)"
      by (simp add: defs)
    have c: "calls = [Fetch req]" using m by (simp add: calls_def out_def [symmetric])
    have g: "status r = 401 \<Longrightarrow> fst (graphRequest E endpoint options s) =
            \<lparr>content = [text_item (JSON_stringify 0 (Some (JObj [(''error'',
                 JStr (''Microsoft Graph API error: 401 '' @ statusText r @ '' - '' @ resp_text r))])))],
             meta = None, isError = Some True\<rparr>"
      using m graphRequest_error [of E endpoint options s _ "snd out"]
      by (simp add: out_def handleResponse_401)
    show ?thesis using single c m h401 g by auto
  next
    case nosecret
    have "refreshAccessToken E (str_of rt) (s1\<lparr>trace := trace s1 @ [Fetch req]\<rparr>)
            = (Inl (Error ''MS365_MCP_CLIENT_SECRET not configured''),
               s1\<lparr>trace := trace s1 @ [Fetch req]\<rparr>)"
      by (rule refreshAccessToken_no_secret [OF nosecret(4)])
    from makeRequest_refresh_failure [OF res a nosecret(1) [unfolded first_def] nosecret(2)
           nosecret(3) [unfolded rt_def] this [unfolded rt_def req_def]]
    have m: "out = (Inl (Error ''MS365_MCP_CLIENT_SECRET not configured''),
                    s1\<lparr>trace := trace s1 @ [Fetch req]\<rparr>)"
      by (simp add: defs)
    have c: "calls = [Fetch req]" using m by (simp add: calls_def out_def [symmetric])
    show ?thesis using nosecret c m h401 by auto
  next
    case refused
    have "refreshAccessToken E (str_of rt) (s1\<lparr>trace := trace s1 @ [Fetch req]\<rparr>)
            = (Inl e, s1\<lparr>trace := trace s1 @ [Fetch req, refresh_call E (str_of rt)]\<rparr>)"
      using refreshAccessToken_refresher_fails [OF refused(4,5)] by simp
    from makeRequest_refresh_failure [OF res a refused(1) [unfolded first_def] refused(2)
           refused(3) [unfolded rt_def] this [unfolded rt_def req_def]]
    have m: "out = (Inl e, s1\<lparr>trace := trace s1 @ [Fetch req, refresh_call E (str_of rt)]\<rparr>)"
      by (simp add: defs)
    have c: "calls = [Fetch req, refresh_call E (str_of rt)]"
      using m by (simp add: calls_def out_def [symmetric])
    show ?thesis using refused c m h401 by auto
  next
    case retried
    let ?req' = "build_request endpoint (if access_token tr = [] then a else access_token tr) options"
    from makeRequest_retried [OF res a retried(1) [unfolded first_def] retried(2)
           retried(3) [unfolded rt_def] retried(4) retried(5) [unfolded rt_def]]
    have m: "out = (case fetch E (Suc (length (filter is_Fetch (trace s)))) ?req' of
                      Inl e \<Rightarrow> Inl e | Inr r2 \<Rightarrow> handleResponse E options r2,
        s1\<lparr>trace := trace s1 @ [Fetch req, refresh_call E (str_of rt), Fetch ?req'],
           this_accessToken := Some (access_token tr),
           this_refreshToken := (if truthy_str (refresh_token tr) then refresh_token tr
                                 else this_refreshToken s)\<rparr>)"
      by (simp add: defs)
    have c: "calls = [Fetch req, refresh_call E (str_of rt), Fetch ?req']"
      using m by (simp add: calls_def out_def [symmetric])
    show ?thesis using retried c m h401 by auto
  qed
qed


theorem refresh_and_retry_witness:
  "new_calls st_ex (snd (makeRequest env_ex ''/me'' opts_ex st_ex))
     = [Fetch (build_request ''/me'' ''old'' opts_ex), refresh_call env_ex ''r0'',
        Fetch (build_request ''/me'' ''new'' opts_ex)]
   \<and> fst (makeRequest env_ex ''/me'' opts_ex st_ex) = handleResponse env_ex opts_ex resp200
   \<and> length (filter is_Fetch (new_calls st_ex (snd (makeRequest env_ex ''/me'' opts_ex st_ex)))) = 2
   \<and> length (filter is_Refresh (new_calls st_ex (snd (makeRequest env_ex ''/me'' opts_ex st_ex)))) = 1
   \<and> fst (graphRequest env_ex ''/me'' opts_ex (st_ex\<lparr>this_refreshToken := None\<rparr>))
       = \<lparr>content = [text_item (JSON_stringify 0 (Some (JObj [(''error'',
                 JStr ''Microsoft Graph API error: 401 Unauthorized - expired'')])))],
          meta = None, isError = Some True\<rparr>
   \<and> new_calls st_ex
        (snd (makeRequest env_ex ''/me'' opts_ex (st_ex\<lparr>this_refreshToken := None\<rparr>)))
       = [Fetch (build_request ''/me'' ''old'' opts_ex)]
   \<and> new_calls st_ex (snd (makeRequest (env_ex\<lparr>MS365_MCP_CLIENT_SECRET := None\<rparr>) ''/me'' opts_ex st_ex))
       = [Fetch (build_request ''/me'' ''old'' opts_ex)]
   \<and> fst (makeRequest (env_ex\<lparr>lib_refreshAccessToken := \<lambda>rt cid sec tid. Inl (Error ''invalid_grant'')\<rparr>)
            ''/me'' opts_ex st_ex) = Inl (Error ''invalid_grant'')
   \<and> fst (makeRequest (env_ex\<lparr>fetch := \<lambda>k q. Inl (Error ''fetch failed'')\<rparr>) ''/me'' opts_ex st_ex)
       = Inl (Error ''fetch failed'')
   \<and> new_calls st_ex
        (snd (makeRequest
           (env_ex\<lparr>lib_refreshAccessToken :=
              \<lambda>rt cid sec tid. Inr \<lparr>access_token = [], refresh_token = None\<rparr>\<rparr>)
           ''/me'' opts_ex st_ex))
       = [Fetch (build_request ''/me'' ''old'' opts_ex),
          refresh_call
            (env_ex\<lparr>lib_refreshAccessToken :=
               \<lambda>rt cid sec tid. Inr \<lparr>access_token = [], refresh_token = None\<rparr>\<rparr>) ''r0'',
          Fetch (build_request ''/me'' ''old'' opts_ex)]"
proof -
  let ?Ee = "env_ex\<lparr>lib_refreshAccessToken :=
               \<lambda>rt cid sec tid. Inr \<lparr>access_token = [], refresh_token = None\<rparr>\<rparr>"
  let ?sn = "st_ex\<lparr>this_refreshToken := None\<rparr>"
  let ?En = "env_ex\<lparr>MS365_MCP_CLIENT_SECRET := None\<rparr>"
  let ?Er = "env_ex\<lparr>lib_refreshAccessToken := \<lambda>rt cid sec tid. Inl (Error ''invalid_grant'')\<rparr>"
  let ?Ef = "env_ex\<lparr>fetch := \<lambda>k q. Inl (Error ''fetch failed'')\<rparr>"
  have a: "''old'' \<noteq> []" by simp
  have r: "resolveAccessToken E opts_ex st_ex = (Inr (Some ''old''), st_ex)"
    "resolveAccessToken E opts_ex ?sn = (Inr (Some ''old''), ?sn)" for E
    by (simp_all add: resolveAccessToken_def opts_ex_def st_ex_def)
  have rt: "or_str (refreshToken opts_ex) (this_refreshToken st_ex) = Some ''r0''"
    "or_str (refreshToken opts_ex) (this_refreshToken ?sn) = None"
    "or_str (refreshToken opts_ex) None = None"
    by (simp_all add: or_str_def opts_ex_def st_ex_def)
  have k: "length (filter is_Fetch (trace st_ex)) = 0" "length (filter is_Fetch (trace ?sn)) = 0"
    by (simp_all add: st_ex_def)
  have f: "fetch env_ex 0 q = Inr resp401" "fetch env_ex (Suc 0) q = Inr resp200"
    "fetch ?En 0 q = Inr resp401" "fetch ?Er 0 q = Inr resp401"
    "fetch ?Ef 0 q = Inl (Error ''fetch failed'')" "fetch ?Ee 0 q = Inr resp401" for q
    by (simp_all add: env_ex_def)
  have st: "status resp401 = 401" "statusText resp401 = ''Unauthorized''"
    "resp_text resp401 = ''expired''"
    by (simp_all add: resp401_def)
  have sec: "truthy_str (MS365_MCP_CLIENT_SECRET env_ex)"
    "\<not> truthy_str (MS365_MCP_CLIENT_SECRET ?En)" "truthy_str (MS365_MCP_CLIENT_SECRET ?Er)"
    "truthy_str (MS365_MCP_CLIENT_SECRET ?Ee)"
    by (simp_all add: env_ex_def)
  have ro: "refresh_outcome env_ex ''r0'' = Inr \<lparr>access_token = ''new'', refresh_token = None\<rparr>"
    "refresh_outcome ?Er ''r0'' = Inl (Error ''invalid_grant'')"
    "refresh_outcome ?Ee ''r0'' = Inr \<lparr>access_token = [], refresh_token = None\<rparr>"
    by (simp_all add: refresh_outcome_def env_ex_def)
  from refresh_and_retry [OF r(1) a, of env_ex "''/me''"]
  have w1: "new_calls st_ex (snd (makeRequest env_ex ''/me'' opts_ex st_ex))
     = [Fetch (build_request ''/me'' ''old'' opts_ex), refresh_call env_ex ''r0'',
        Fetch (build_request ''/me'' ''new'' opts_ex)]
     \<and> fst (makeRequest env_ex ''/me'' opts_ex st_ex) = handleResponse env_ex opts_ex resp200"
    by (simp add: rt k f st sec ro)
  from refresh_and_retry [OF r(2) a, of env_ex "''/me''"]
  have w2: "fst (graphRequest env_ex ''/me'' opts_ex ?sn)
       = \<lparr>content = [text_item (JSON_stringify 0 (Some (JObj [(''error'',
                 JStr ''Microsoft Graph API error: 401 Unauthorized - expired'')])))],
          meta = None, isError = Some True\<rparr>
     \<and> new_calls ?sn (snd (makeRequest env_ex ''/me'' opts_ex ?sn))
       = [Fetch (build_request ''/me'' ''old'' opts_ex)]"
    by (simp add: rt k f st)
  from refresh_and_retry [OF r(1) a, of ?En "''/me''"]
  have w3: "new_calls st_ex (snd (makeRequest ?En ''/me'' opts_ex st_ex))
       = [Fetch (build_request ''/me'' ''old'' opts_ex)]"
    by (simp add: rt k f st sec)
  from refresh_and_retry [OF r(1) a, of ?Er "''/me''"]
  have w4: "fst (makeRequest ?Er ''/me'' opts_ex st_ex) = Inl (Error ''invalid_grant'')"
    by (simp add: rt k f st sec ro)
  from refresh_and_retry [OF r(1) a, of ?Ef "''/me''"]
  have w5: "fst (makeRequest ?Ef ''/me'' opts_ex st_ex) = Inl (Error ''fetch failed'')"
    by (simp add: rt k f)
  from refresh_and_retry [OF r(1) a, of ?Ee "''/me''"]
  have w6: "new_calls st_ex (snd (makeRequest ?Ee ''/me'' opts_ex st_ex))
       = [Fetch (build_request ''/me'' ''old'' opts_ex), refresh_call ?Ee ''r0'',
          Fetch (build_request ''/me'' ''old'' opts_ex)]"
    by (simp add: rt k f st sec ro)
  have n: "new_calls ?sn x = new_calls st_ex x" for x
    by (simp add: new_calls_def)
  from w1 w2 w3 w4 w5 w6 show ?thesis
    by (simp add: n)
qed

text \<open>
  C2 as stated fails when the refresh itself fails: the first response is a 401 and a
  refresh token is available, but no client secret is configured, and the call makes one
  transport call and no refresher call.
\<close>

theorem refresh_and_retry_counterexample:
  "fetch (env_ex\<lparr>MS365_MCP_CLIENT_SECRET := None\<rparr>) 0 (build_request ''/me'' ''old'' opts_ex)
     = Inr resp401
   \<and> status resp401 = 401
   \<and> this_refreshToken st_ex = Some ''r0''
   \<and> length (filter is_Fetch (new_calls st_ex
        (snd (makeRequest (env_ex\<lparr>MS365_MCP_CLIENT_SECRET := None\<rparr>) ''/me'' opts_ex st_ex)))) = 1
   \<and> length (filter is_Refresh (new_calls st_ex
        (snd (makeRequest (env_ex\<lparr>MS365_MCP_CLIENT_SECRET := None\<rparr>) ''/me'' opts_ex st_ex)))) = 0"
  by (simp add: makeRequest_def run_defs new_calls_def example_defs Let_def)

subsection \<open>The stored credential pair\<close>

lemma refreshAccessToken_pair:
  "stored_pair (snd (refreshAccessToken E rt s)) \<noteq> stored_pair s \<Longrightarrow>
     \<exists>tr. refresh_outcome E rt = Inr tr
        \<and> trace (snd (refreshAccessToken E rt s)) = trace s @ [refresh_call E rt]"
  by (auto simp: refreshAccessToken_def refresh_outcome_def refresh_call_def stored_pair_def
        Let_def split: if_splits sum.splits)

lemma performRequest_pair:
  "stored_pair (snd (performRequest E endpoint a options s)) = stored_pair s"
  by (simp add: performRequest_def stored_pair_def Let_def)

lemma performRequest_trace:
  "trace (snd (performRequest E endpoint a options s))
     = trace s @ [Fetch (build_request endpoint a options)]"
  by (simp add: performRequest_def Let_def)

lemma refreshAccessToken_trace_prefix:
  "\<exists>evs. trace (snd (refreshAccessToken E rt s)) = trace s @ evs"
  by (auto simp: refreshAccessToken_def Let_def split: if_splits sum.splits)

lemma requestWithRetry_pair:
  assumes "stored_pair (snd (requestWithRetry E endpoint a rt options s)) \<noteq> stored_pair s"
  shows "\<exists>tr. refresh_outcome E (str_of rt) = Inr tr
           \<and> refresh_call E (str_of rt)
                \<in> set (new_calls s (snd (requestWithRetry E endpoint a rt options s)))"
proof -
  let ?s1 = "s\<lparr>trace := trace s @ [Fetch (build_request endpoint a options)]\<rparr>"
  let ?out = "requestWithRetry E endpoint a rt options s"
  have p1: "stored_pair ?s1 = stored_pair s" by (simp add: stored_pair_def)
  show ?thesis
  proof (cases "fetch E (length (filter is_Fetch (trace s))) (build_request endpoint a options)")
    case (Inl e)
    from requestWithRetry_transport_failure [OF Inl] assms p1 show ?thesis by simp
  next
    case (Inr r)
    show ?thesis
    proof (cases "status r = 401 \<and> truthy_str rt")
      case False
      from requestWithRetry_no_retry [OF Inr False] assms p1 show ?thesis by simp
    next
      case True
      obtain res s2 where rf: "refreshAccessToken E (str_of rt) ?s1 = (res, s2)"
        by (cases "refreshAccessToken E (str_of rt) ?s1")
      have snd_out: "stored_pair (snd ?out) = stored_pair s2
          \<and> (\<exists>evs. trace (snd ?out) = trace s2 @ evs)"
      proof (cases res)
        case (Inl e)
        with requestWithRetry_refresh_fails [OF Inr _ _ rf [unfolded Inl]] True
        show ?thesis by simp
      next
        case (Inr u)
        show ?thesis
          using Inr rf \<open>fetch E _ _ = Inr r\<close> True
          by (auto simp: requestWithRetry_def bind_io_def performRequest_def stored_pair_def
                throw_io_def Let_def)
      qed
      with assms p1 have ch: "stored_pair (snd (refreshAccessToken E (str_of rt) ?s1)) \<noteq> stored_pair ?s1"
        by (simp add: rf)
      from refreshAccessToken_pair [OF ch] obtain tr where
        tr: "refresh_outcome E (str_of rt) = Inr tr"
          "trace s2 = trace ?s1 @ [refresh_call E (str_of rt)]"
        by (auto simp: rf)
      from snd_out obtain evs where "trace (snd ?out) = trace s2 @ evs" by blast
      with tr(2) have "refresh_call E (str_of rt) \<in> set (new_calls s (snd ?out))"
        by (simp add: new_calls_def)
      with tr(1) show ?thesis by blast
    qed
  qed
qed

lemma set_drop_more: "set (drop (m + n) xs) \<subseteq> set (drop m xs)"
  by (metis add.commute drop_drop set_drop_subset)

lemma makeRequest_pair:
  assumes "stored_pair (snd (makeRequest E endpoint options s)) \<noteq> stored_pair s"
  shows "\<exists>rt tr. refresh_outcome E rt = Inr tr
           \<and> refresh_call E rt \<in> set (new_calls s (snd (makeRequest E endpoint options s)))"
proof -
  obtain res s1 where r: "resolveAccessToken E options s = (res, s1)"
    by (cases "resolveAccessToken E options s")
  note fr = resolveAccessToken_frame [OF r]
  have p: "stored_pair s1 = stored_pair s" using fr by (simp add: stored_pair_def)
  have pre: "\<exists>evs. trace s1 = trace s @ evs"
    using r by (auto simp: resolveAccessToken_def split: if_splits)
  show ?thesis
  proof (cases res)
    case (Inl e)
    with makeRequest_resolve_throws [OF r [unfolded Inl]] assms p show ?thesis by simp
  next
    case (Inr tok)
    show ?thesis
    proof (cases "truthy_str tok")
      case False
      with makeRequest_no_token [OF r [unfolded Inr] False] assms p show ?thesis by simp
    next
      case True
      let ?rt = "or_str (refreshToken options) (this_refreshToken s)"
      let ?rw = "requestWithRetry E endpoint (str_of tok) ?rt options s1"
      have sn: "snd (makeRequest E endpoint options s) = snd ?rw"
        by (simp add: makeRequest_unfold [OF r [unfolded Inr] True] split: prod.splits sum.splits)
      with assms p have "stored_pair (snd ?rw) \<noteq> stored_pair s1" by simp
      from requestWithRetry_pair [OF this] obtain tr where
        tr: "refresh_outcome E (str_of ?rt) = Inr tr"
          "refresh_call E (str_of ?rt) \<in> set (new_calls s1 (snd ?rw))"
        by blast
      from pre obtain evs where "trace s1 = trace s @ evs" by blast
      then have "set (new_calls s1 (snd ?rw)) \<subseteq> set (new_calls s (snd ?rw))"
        using set_drop_more [of "length (trace s)" "length evs" "trace (snd ?rw)"]
        by (simp add: new_calls_def)
      with tr show ?thesis unfolding sn by blast
    qed
  qed
qed


lemma graphRequest_state: "snd (graphRequest E endpoint options s) = snd (makeRequest E endpoint options s)"
  by (simp add: graphRequest_def split: prod.splits sum.splits error.splits)

text \<open>
  C9, as the code has it. A call of \<open>makeRequest\<close> or \<open>graphRequest\<close> that leaves the stored
  pair different from what it was has called the refresher, and the refresher succeeded.
  \<open>setOAuthTokens\<close> overwrites the pair (an empty or missing refresh token is stored as
  \<open>null\<close>) and calls no collaborator. \<open>formatJsonResponse\<close> has no access to the state. The
  module's effects outside itself are the calls recorded in the trace; none of them writes
  the pair to a store.
\<close>

theorem stored_pair_frame:
  "(stored_pair (snd (makeRequest E endpoint options s)) \<noteq> stored_pair s \<longrightarrow>
      (\<exists>rt tr. refresh_outcome E rt = Inr tr
         \<and> refresh_call E rt \<in> set (new_calls s (snd (makeRequest E endpoint options s)))))
   \<and> (stored_pair (snd (graphRequest E endpoint options s)) \<noteq> stored_pair s \<longrightarrow>
      (\<exists>rt tr. refresh_outcome E rt = Inr tr
         \<and> refresh_call E rt \<in> set (new_calls s (snd (graphRequest E endpoint options s)))))
   \<and> stored_pair (setOAuthTokens a r s) = (Some a, if truthy_str r then r else None)
   \<and> trace (setOAuthTokens a r s) = trace s"
proof (intro conjI impI)
  assume "stored_pair (snd (makeRequest E endpoint options s)) \<noteq> stored_pair s"
  then show "\<exists>rt tr. refresh_outcome E rt = Inr tr
         \<and> refresh_call E rt \<in> set (new_calls s (snd (makeRequest E endpoint options s)))"
    by (rule makeRequest_pair)
next
  assume "stored_pair (snd (graphRequest E endpoint options s)) \<noteq> stored_pair s"
  then have "stored_pair (snd (makeRequest E endpoint options s)) \<noteq> stored_pair s"
    by (simp add: graphRequest_state)
  from makeRequest_pair [OF this]
  show "\<exists>rt tr. refresh_outcome E rt = Inr tr
         \<and> refresh_call E rt \<in> set (new_calls s (snd (graphRequest E endpoint options s)))"
    by (simp add: graphRequest_state)
next
  show "stored_pair (setOAuthTokens a r s) = (Some a, if truthy_str r then r else None)"
    by (simp add: setOAuthTokens_def stored_pair_def or_str_def)
  show "trace (setOAuthTokens a r s) = trace s"
    by (simp add: setOAuthTokens_def)
qed

theorem stored_pair_frame_witness:
  "stored_pair (snd (makeRequest env_ex ''/me'' opts_ex st_ex)) = (Some ''new'', Some ''r0'')
   \<and> stored_pair st_ex = (Some ''old'', Some ''r0'')
   \<and> stored_pair (snd (graphRequest env_ex ''/me'' opts_ex st_ex)) = (Some ''new'', Some ''r0'')
   \<and> (\<exists>rt tr. refresh_outcome env_ex rt = Inr tr
         \<and> refresh_call env_ex rt \<in> set (new_calls st_ex (snd (makeRequest env_ex ''/me'' opts_ex st_ex))))
   \<and> (\<exists>rt tr. refresh_outcome env_ex rt = Inr tr
         \<and> refresh_call env_ex rt \<in> set (new_calls st_ex (snd (graphRequest env_ex ''/me'' opts_ex st_ex))))"
proof -
  have m: "stored_pair (snd (makeRequest env_ex ''/me'' opts_ex st_ex)) = (Some ''new'', Some ''r0'')"
    by (simp add: makeRequest_def run_defs stored_pair_def example_defs Let_def)
  have s: "stored_pair st_ex = (Some ''old'', Some ''r0'')"
    by (simp add: stored_pair_def st_ex_def)
  have g: "stored_pair (snd (graphRequest env_ex ''/me'' opts_ex st_ex)) = (Some ''new'', Some ''r0'')"
    by (simp add: graphRequest_state m)
  have h1: "stored_pair (snd (makeRequest env_ex ''/me'' opts_ex st_ex)) \<noteq> stored_pair st_ex"
    by (simp add: m s)
  have h2: "stored_pair (snd (graphRequest env_ex ''/me'' opts_ex st_ex)) \<noteq> stored_pair st_ex"
    by (simp add: g s)
  note T = stored_pair_frame [of env_ex "''/me''" opts_ex st_ex]
  from T h1 h2 m s g show ?thesis by blast
qed

text \<open>
  C9 as stated fails on \<open>setOAuthTokens\<close>: it changes the stored pair, and no refresh has
  taken place.
\<close>

theorem stored_pair_frame_counterexample:
  "stored_pair (setOAuthTokens ''a1'' (Some ''r1'') st_empty) \<noteq> stored_pair st_empty
   \<and> new_calls st_empty (setOAuthTokens ''a1'' (Some ''r1'') st_empty) = []"
  by (simp add: setOAuthTokens_def stored_pair_def st_empty_def new_calls_def or_str_def)

subsection \<open>Stripping OData properties\<close>

lemma removeODataProps_scalar:
  "typeof (Some v) \<noteq> ''object'' \<Longrightarrow> removeODataProps v = v"
  by (cases v) simp_all

lemma removeODataProps_forEach_eq:
  "removeODataProps_forEach kvs =
     map (\<lambda>kv. (fst kv, removeODataProps (snd kv)))
       (filter (\<lambda>kv. \<not> startsWith (fst kv) ''@odata.'') kvs)"
  by (induction kvs) (auto simp: removeODataProps_scalar)

lemma removeODataProps_elements_eq:
  "removeODataProps_elements xs = map removeODataProps xs"
  by (induction xs) (auto simp: removeODataProps_scalar)

lemma removeODataProps_odata_free:
  "odata_free (removeODataProps v)"
  "odata_free_members (removeODataProps_forEach kvs)"
  "odata_free_elements (removeODataProps_elements xs)"
proof (induction v and kvs and xs rule: removeODataProps_removeODataProps_forEach_removeODataProps_elements.induct)
  case (8 key v kvs)
  then show ?case by (cases v) auto
next
  case (10 x xs)
  then show ?case by (cases x) auto
qed simp_all

lemma removeODataProps_id:
  "odata_free v \<Longrightarrow> removeODataProps v = v"
  "odata_free_members kvs \<Longrightarrow> removeODataProps_forEach kvs = kvs"
  "odata_free_elements xs \<Longrightarrow> removeODataProps_elements xs = xs"
  by (induction v and kvs and xs rule: removeODataProps_removeODataProps_forEach_removeODataProps_elements.induct)
     auto

text \<open>An array index never starts with \<open>@odata.\<close>: the loop over an array deletes nothing.\<close>

lemma string_of_nat_nonempty: "string_of_nat n \<noteq> []"
  by (induction n rule: string_of_nat.induct) (subst string_of_nat.simps, simp)

lemma digit_char_not_at: "d < 10 \<Longrightarrow> digit_char d \<noteq> CHR ''@''"
proof
  assume d: "d < 10" and e: "digit_char d = CHR ''@''"
  from d have "of_char (digit_char d) = (48 + d :: nat)"
    by (simp add: digit_char_def)
  with e have "48 + d = (64 :: nat)" by simp
  with d show False by simp
qed

lemma string_of_nat_hd: "\<exists>d cs. d < 10 \<and> string_of_nat n = digit_char d # cs"
proof (induction n rule: string_of_nat.induct)
  case (1 n)
  show ?case
  proof (cases "n < 10")
    case True
    then show ?thesis by (subst string_of_nat.simps) auto
  next
    case False
    with 1 obtain d cs where "d < 10" "string_of_nat (n div 10) = digit_char d # cs" by blast
    with False show ?thesis by (subst string_of_nat.simps) auto
  qed
qed

lemma index_key_not_odata: "\<not> startsWith (string_of_nat i) ''@odata.''"
proof -
  obtain d cs where "d < 10" "string_of_nat i = digit_char d # cs"
    using string_of_nat_hd by blast
  then show ?thesis
    using digit_char_not_at [of d] by (auto simp: startsWith_def)
qed

subsection \<open>The text of the envelope\<close>

lemma digit_char_not_underscore: "d < 10 \<Longrightarrow> digit_char d \<noteq> CHR ''_''"
proof
  assume d: "d < 10" and e: "digit_char d = CHR ''_''"
  from d have "of_char (digit_char d) = (48 + d :: nat)"
    by (simp add: digit_char_def)
  with e have "48 + d = (95 :: nat)" by simp
  with d show False by simp
qed

lemma index_key_not_headers: "string_of_nat i \<noteq> ''_headers''"
proof -
  obtain d cs where "d < 10" "string_of_nat i = digit_char d # cs"
    using string_of_nat_hd by blast
  then show ?thesis
    using digit_char_not_underscore [of d] by auto
qed

lemma js_in_headers_array: "\<not> js_in ''_headers'' (JArr xs)"
proof -
  have "''_headers'' \<noteq> string_of_nat i" for i
    using index_key_not_headers [of i] by simp
  then show ?thesis by auto
qed

lemma formatJsonResponse_wrapped:
  assumes "''_headers'' \<in> fst ` set kvs"
  shows "formatJsonResponse (Some (JObj kvs)) raw =
           formatWrapped (JObj kvs) (raw = Some True)"
  using assms by (cases raw) (auto simp: formatJsonResponse_def)

lemma formatJsonResponse_plain:
  assumes "\<forall>kvs. data = Some (JObj kvs) \<longrightarrow> ''_headers'' \<notin> fst ` set kvs"
  shows "formatJsonResponse data raw = formatPlain data (raw = Some True)"
proof (cases data)
  case None
  then show ?thesis by (cases raw) (auto simp: formatJsonResponse_def)
next
  case (Some d)
  with assms have "\<not> (truthy (Some d) \<and> typeof (Some d) = ''object'' \<and> js_in ''_headers'' d)"
    using js_in_headers_array by (cases d) auto
  with Some show ?thesis by (cases raw) (auto simp: formatJsonResponse_def)
qed


lemma success_text:
  \<open>JSON_stringify 0 (Some (JObj [(''success'', JBool True)])) = Some ''{"success":true}''\<close>
  by code_simp

text \<open>
  C3, as the code has it. Without \<open>rawResponse\<close>, the envelope has one content item of type
  \<open>text\<close>. Its payload is the value itself, or the value's \<open>data\<close> property when the value is
  an object with a \<open>_headers\<close> property. When the payload is \<open>null\<close> or \<open>undefined\<close> the text
  is \<open>{"success":true}\<close>; otherwise it is the serialisation with two-blank indentation of
  the payload stripped by \<open>removeODataProps\<close>. The stripped value has no key starting with
  \<open>@odata.\<close> at any depth; an object keeps its other keys, in order, with stripped values;
  an array is stripped element by element; every other value, and every value that had no
  such key, is unchanged.
\<close>

theorem odata_stripping:
  "(\<forall>kvs. ''_headers'' \<in> fst ` set kvs \<and> raw \<noteq> Some True \<longrightarrow>
      content (formatJsonResponse (Some (JObj kvs)) raw) =
        [\<lparr>item_type = ''text'',
          item_text =
            (case map_of kvs ''data'' of
               None \<Rightarrow> JSON_stringify 0 (Some (JObj [(''success'', JBool True)]))
             | Some JNull \<Rightarrow> JSON_stringify 0 (Some (JObj [(''success'', JBool True)]))
             | Some v \<Rightarrow> Some (SerializeJSONProperty ''  '' [] (removeODataProps v)))\<rparr>])
   \<and> ((\<forall>kvs. data = Some (JObj kvs) \<longrightarrow> ''_headers'' \<notin> fst ` set kvs) \<and> raw \<noteq> Some True \<longrightarrow>
      content (formatJsonResponse data raw) =
        [\<lparr>item_type = ''text'',
          item_text =
            (case data of
               None \<Rightarrow> JSON_stringify 0 (Some (JObj [(''success'', JBool True)]))
             | Some JNull \<Rightarrow> JSON_stringify 0 (Some (JObj [(''success'', JBool True)]))
             | Some v \<Rightarrow> Some (SerializeJSONProperty ''  '' [] (removeODataProps v)))\<rparr>])
   \<and> (\<forall>v. odata_free (removeODataProps v))
   \<and> (\<forall>kvs. removeODataProps (JObj kvs) =
          JObj (map (\<lambda>kv. (fst kv, removeODataProps (snd kv)))
                 (filter (\<lambda>kv. \<not> startsWith (fst kv) ''@odata.'') kvs)))
   \<and> (\<forall>xs. removeODataProps (JArr xs) = JArr (map removeODataProps xs))
   \<and> (\<forall>v. (\<forall>kvs. v \<noteq> JObj kvs) \<and> (\<forall>xs. v \<noteq> JArr xs) \<longrightarrow> removeODataProps v = v)
   \<and> (\<forall>v. odata_free v \<longrightarrow> removeODataProps v = v)"
proof (intro conjI allI impI)
  fix kvs :: "(string \<times> json) list"
  assume a: "''_headers'' \<in> fst ` set kvs \<and> raw \<noteq> Some True"
  then have "formatJsonResponse (Some (JObj kvs)) raw = formatWrapped (JObj kvs) False"
    by (simp add: formatJsonResponse_wrapped)
  then show "content (formatJsonResponse (Some (JObj kvs)) raw) =
        [\<lparr>item_type = ''text'',
          item_text =
            (case map_of kvs ''data'' of
               None \<Rightarrow> JSON_stringify 0 (Some (JObj [(''success'', JBool True)]))
             | Some JNull \<Rightarrow> JSON_stringify 0 (Some (JObj [(''success'', JBool True)]))
             | Some v \<Rightarrow> Some (SerializeJSONProperty ''  '' [] (removeODataProps v)))\<rparr>]"
    by (auto simp: formatWrapped_def text_item_def JSON_stringify_def Let_def numeral_2_eq_2
          split: option.splits json.splits)
next
  assume a: "(\<forall>kvs. data = Some (JObj kvs) \<longrightarrow> ''_headers'' \<notin> fst ` set kvs) \<and> raw \<noteq> Some True"
  then have "formatJsonResponse data raw = formatPlain data False"
    by (simp add: formatJsonResponse_plain)
  then show "content (formatJsonResponse data raw) =
        [\<lparr>item_type = ''text'',
          item_text =
            (case data of
               None \<Rightarrow> JSON_stringify 0 (Some (JObj [(''success'', JBool True)]))
             | Some JNull \<Rightarrow> JSON_stringify 0 (Some (JObj [(''success'', JBool True)]))
             | Some v \<Rightarrow> Some (SerializeJSONProperty ''  '' [] (removeODataProps v)))\<rparr>]"
    by (auto simp: formatPlain_def text_item_def JSON_stringify_def Let_def numeral_2_eq_2
          split: option.splits json.splits)
next
  fix v show "odata_free (removeODataProps v)" by (rule removeODataProps_odata_free)
next
  fix kvs show "removeODataProps (JObj kvs) =
          JObj (map (\<lambda>kv. (fst kv, removeODataProps (snd kv)))
                 (filter (\<lambda>kv. \<not> startsWith (fst kv) ''@odata.'') kvs))"
    by (simp add: removeODataProps_forEach_eq)
next
  fix xs show "removeODataProps (JArr xs) = JArr (map removeODataProps xs)"
    by (simp add: removeODataProps_elements_eq)
next
  fix v :: json
  assume "(\<forall>kvs. v \<noteq> JObj kvs) \<and> (\<forall>xs. v \<noteq> JArr xs)"
  then show "removeODataProps v = v" by (cases v) simp_all
next
  fix v assume "odata_free v" then show "removeODataProps v = v"
    by (rule removeODataProps_id)
qed


theorem odata_stripping_witness:
  \<open>content (formatJsonResponse
       (Some (JObj [(''@odata.context'', JStr ''c''), (''id'', JNum ''7''),
                    (''value'', JArr [JObj [(''@odata.etag'', JStr ''e''), (''ok'', JBool True)]])]))
       None)
     = [\<lparr>item_type = ''text'',
         item_text = Some (''{'' @ [CHR 0x0A] @ ''  "id": 7,'' @ [CHR 0x0A]
            @ ''  "value": ['' @ [CHR 0x0A]
            @ ''    {'' @ [CHR 0x0A]
            @ ''      "ok": true'' @ [CHR 0x0A]
            @ ''    }'' @ [CHR 0x0A]
            @ ''  ]'' @ [CHR 0x0A] @ ''}'')\<rparr>]
   \<and> content (formatJsonResponse
       (Some (JObj [(''_headers'', JObj []), (''data'', JObj [(''@odata.id'', JNull)])])) (Some False))
     = [\<lparr>item_type = ''text'', item_text = Some ''{}''\<rparr>]
   \<and> content (formatJsonResponse (Some (JObj [(''_headers'', JObj [])])) None)
     = [\<lparr>item_type = ''text'', item_text = Some ''{"success":true}''\<rparr>]
   \<and> removeODataProps (JStr ''@odata.type'') = JStr ''@odata.type''
   \<and> removeODataProps (JObj [(''id'', JNum ''7'')]) = JObj [(''id'', JNum ''7'')]\<close>
proof -
  let ?d = "JObj [(''@odata.context'', JStr ''c''), (''id'', JNum ''7''),
                    (''value'', JArr [JObj [(''@odata.etag'', JStr ''e''), (''ok'', JBool True)]])]"
  let ?k1 = "[(''_headers'', JObj []), (''data'', JObj [(''@odata.id'', JNull)])]"
  let ?k2 = "[(''_headers'', JObj [])]"
  have h1: "(\<forall>kvs. Some ?d = Some (JObj kvs) \<longrightarrow> ''_headers'' \<notin> fst ` set kvs) \<and> None \<noteq> Some True"
    by simp
  have h2: "''_headers'' \<in> fst ` set ?k1 \<and> Some False \<noteq> Some True"
    and h3: "''_headers'' \<in> fst ` set ?k2 \<and> None \<noteq> Some True"
    by simp_all
  have h4: "(\<forall>kvs. JStr ''@odata.type'' \<noteq> JObj kvs) \<and> (\<forall>xs. JStr ''@odata.type'' \<noteq> JArr xs)"
    by simp
  have h5: "odata_free (JObj [(''id'', JNum ''7'')])"
    by (simp add: startsWith_def)
  have e1: \<open>SerializeJSONProperty ''  '' [] (removeODataProps ?d)
      = ''{'' @ [CHR 0x0A] @ ''  "id": 7,'' @ [CHR 0x0A]
            @ ''  "value": ['' @ [CHR 0x0A]
            @ ''    {'' @ [CHR 0x0A]
            @ ''      "ok": true'' @ [CHR 0x0A]
            @ ''    }'' @ [CHR 0x0A]
            @ ''  ]'' @ [CHR 0x0A] @ ''}''\<close>
    by code_simp
  have e2: "SerializeJSONProperty ''  '' [] (removeODataProps (JObj [(''@odata.id'', JNull)])) = ''{}''"
    by code_simp
  have a: "content (formatJsonResponse (Some ?d) None)
      = [\<lparr>item_type = ''text'',
          item_text = Some (SerializeJSONProperty ''  '' [] (removeODataProps ?d))\<rparr>]"
    using odata_stripping [where raw = None and data = "Some ?d", THEN conjunct2, THEN conjunct1,
             THEN mp, OF h1]
    by (simp del: removeODataProps.simps SerializeJSONProperty.simps)
  have b: "content (formatJsonResponse (Some (JObj ?k1)) (Some False))
      = [\<lparr>item_type = ''text'',
          item_text = Some (SerializeJSONProperty ''  '' []
                             (removeODataProps (JObj [(''@odata.id'', JNull)])))\<rparr>]"
    using odata_stripping [where raw = "Some False", THEN conjunct1, THEN spec, THEN mp, OF h2]
    by (simp del: removeODataProps.simps SerializeJSONProperty.simps)
  have c: "content (formatJsonResponse (Some (JObj ?k2)) None)
      = [\<lparr>item_type = ''text'',
          item_text = JSON_stringify 0 (Some (JObj [(''success'', JBool True)]))\<rparr>]"
    using odata_stripping [where raw = None, THEN conjunct1, THEN spec, THEN mp, OF h3]
    by (simp del: removeODataProps.simps SerializeJSONProperty.simps)
  note T = odata_stripping [where raw = None and data = None]
  from T h4 have d: "removeODataProps (JStr ''@odata.type'') = JStr ''@odata.type''" by blast
  from T h5 have e: "removeODataProps (JObj [(''id'', JNum ''7'')]) = JObj [(''id'', JNum ''7'')]"
    by blast
  show ?thesis
    unfolding a b c e1 e2 success_text using d e by (intro conjI) (rule refl | assumption)+
qed

text \<open>
  C3 as stated fails for the value \<open>null\<close>: the text is \<open>{"success":true}\<close>, which is not the
  serialisation, indented or not, of the value that survives the stripping.
\<close>

theorem odata_stripping_counterexample:
  \<open>map item_text (content (formatJsonResponse (Some JNull) None)) = [Some ''{"success":true}'']
   \<and> SerializeJSONProperty ''  '' [] (removeODataProps JNull) = ''null''
   \<and> removeODataProps JNull = JNull\<close>
  by (simp add: formatJsonResponse_def formatPlain_def text_item_def success_text)

subsection \<open>The envelope of \<open>graphRequest\<close>\<close>

lemma formatJsonResponse_shape:
  "\<exists>t. content (formatJsonResponse data raw) = [\<lparr>item_type = ''text'', item_text = t\<rparr>]"
  by (auto simp: formatJsonResponse_def formatPlain_def formatWrapped_def text_item_def Let_def
        split: option.splits)

text \<open>
  \<open>graphRequest\<close> always returns an envelope with one content item of type \<open>text\<close>, and
  every throw of \<open>makeRequest\<close> gives the error envelope (\<open>graphRequest_error\<close>).
\<close>

lemma graphRequest_shape:
  "\<exists>t. content (fst (graphRequest E endpoint options s)) = [\<lparr>item_type = ''text'', item_text = t\<rparr>]"
proof (cases "makeRequest E endpoint options s")
  case (Pair res s')
  show ?thesis
  proof (cases res)
    case (Inl e)
    then show ?thesis using Pair
      by (cases e) (simp add: graphRequest_def text_item_def)
  next
    case (Inr v)
    then show ?thesis using Pair formatJsonResponse_shape [of "Some v" "rawResponse options"]
      by (simp add: graphRequest_def)
  qed
qed

text \<open>The text is a string whenever \<open>rawResponse\<close> is not requested.\<close>

lemma formatJsonResponse_text_defined:
  assumes "raw \<noteq> Some True"
  shows "\<exists>t. content (formatJsonResponse data raw) = [\<lparr>item_type = ''text'', item_text = Some t\<rparr>]"
  using assms
  by (cases raw)
     (auto simp: formatJsonResponse_def formatPlain_def formatWrapped_def text_item_def Let_def
        JSON_stringify_def split: option.splits)

lemma graphRequest_text_defined:
  assumes "rawResponse options \<noteq> Some True"
  shows "\<exists>t. content (fst (graphRequest E endpoint options s))
              = [\<lparr>item_type = ''text'', item_text = Some t\<rparr>]"
proof (cases "makeRequest E endpoint options s")
  case (Pair res s')
  show ?thesis
  proof (cases res)
    case (Inl e)
    then show ?thesis using Pair
      by (cases e) (simp add: graphRequest_def text_item_def JSON_stringify_def)
  next
    case (Inr v)
    then show ?thesis
      using Pair formatJsonResponse_text_defined [OF assms, of "Some v"]
      by (simp add: graphRequest_def)
  qed
qed

text \<open>
  C1 at the input where the code falls short of it: \<open>rawResponse\<close> is requested and the
  body of a 200 response is an object with a \<open>_headers\<close> property and no \<open>data\<close> property.
  \<open>formatJsonResponse\<close> takes the branch for wrapped values and serialises the missing
  \<open>data\<close>: \<open>JSON.stringify(undefined)\<close> is \<open>undefined\<close>, so the one content item has no
  text at all. Without \<open>rawResponse\<close> the same response gives the text \<open>{"success":true}\<close>.
\<close>

theorem graphRequest_raw_headers_text_undefined:
  \<open>fst (graphRequest (env_ex\<lparr>fetch := \<lambda>k q. Inr resp_headers_body\<rparr>) ''/me''
          (opts_ex\<lparr>rawResponse := Some True\<rparr>) st_ex)
     = \<lparr>content = [\<lparr>item_type = ''text'', item_text = None\<rparr>],
        meta = Some [(''headers'', JObj [])], isError = None\<rparr>
   \<and> fst (graphRequest (env_ex\<lparr>fetch := \<lambda>k q. Inr resp_headers_body\<rparr>) ''/me'' opts_ex st_ex)
     = \<lparr>content = [\<lparr>item_type = ''text'', item_text = Some ''{"success":true}''\<rparr>],
        meta = Some [(''headers'', JObj [])], isError = None\<rparr>\<close>
  by (simp add: graphRequest_def makeRequest_def run_defs handleResponse_def ok_def
        formatJsonResponse_def formatWrapped_def set_if_truthy_def text_item_def
        success_text example_defs Let_def)
    (simp add: JSON_stringify_def)

end
